theory Spec2Isabelle
  imports Complex_Main "HOL-Library.Sublist"
begin

section \<open>Values and payloads of HttpTrigger/index.js\<close>

text \<open>
  The handler is asynchronous but sequential: every \<^verbatim>\<open>await\<close> is followed by the rest of
  the function. A run is modelled as the list of effects it performs, in order, together
  with its outcome: \<open>Inr v\<close> when the JavaScript function returns \<open>v\<close>, \<open>Inl e\<close> when
  it throws (the promise rejects with) \<open>e\<close>.
\<close>

datatype error =
    TypeError \<comment> \<open>a property read on \<^verbatim>\<open>undefined\<close> or \<^verbatim>\<open>null\<close>\<close>
  | AxiosError \<comment> \<open>a rejected \<^verbatim>\<open>axios.post\<close>\<close>
  | TranslateError \<comment> \<open>a rejected \<^verbatim>\<open>translationClient.translateText\<close>\<close>

text \<open>
  An optional string field is \<open>None\<close> when the property is \<^verbatim>\<open>undefined\<close>. JavaScript
  treats \<^verbatim>\<open>undefined\<close> and the empty string as falsy and every other string as truthy.
\<close>

definition truthy :: "string option \<Rightarrow> bool" where
  "truthy v = (case v of None \<Rightarrow> False | Some s \<Rightarrow> s \<noteq> [])"

text \<open>
  What a read \<^verbatim>\<open>langcode[k]\<close> of the language table can yield besides \<^verbatim>\<open>undefined\<close>: a
  string of the table, or a member that the table inherits from \<^verbatim>\<open>Object.prototype\<close>,
  named by its property (a built-in function; for \<^verbatim>\<open>__proto__\<close> the prototype object).
  Functions and objects are truthy.
\<close>

datatype jsval = Str string | Inherited string

definition truthy_val :: "jsval option \<Rightarrow> bool" where
  "truthy_val v =
     (case v of None \<Rightarrow> False | Some (Str s) \<Rightarrow> s \<noteq> [] | Some (Inherited _) \<Rightarrow> True)"

text \<open>
  The text a template literal \<^verbatim>\<open>${v}\<close> inserts: the string itself, and for an inherited
  member what Node prints for a built-in function or for the prototype object.
\<close>

definition to_text :: "jsval \<Rightarrow> string" where
  "to_text v =
     (case v of
        Str s \<Rightarrow> s
      | Inherited k \<Rightarrow>
          if k = ''__proto__'' then ''[object Object]''
          else ''function '' @ (if k = ''constructor'' then ''Object'' else k) @ ''() { [native code] }'')"

record attachment =
  att_pretext :: "string option"
  att_text :: "string option"
  att_footer :: "string option"
  att_mrkdwn_in :: "string list"

record message =
  msg_text :: "string option"
  msg_ts :: "string option"
  msg_thread_ts :: "string option"
  msg_subtype :: "string option"
  msg_attachments :: "attachment list option"

record item =
  item_type :: string
  item_channel :: string
  item_ts :: string

record event =
  ev_type :: string
  ev_user :: string
  ev_reaction :: string
  ev_item :: item

record body =
  body_type :: "string option"
  body_challenge :: "string option"
  body_event :: "event option"

record request =
  req_body :: body

datatype res_body =
    ChallengeBody "string option" \<comment> \<open>\<^verbatim>\<open>{challenge: req.body.challenge}\<close>\<close>
  | StringBody string
  | UndefinedBody \<comment> \<open>the value \<^verbatim>\<open>events\<close> returns on every path\<close>

record response =
  res_status :: "nat option"
  res_body :: res_body

text \<open>Arguments of the two chat-platform calls and of the translation call.\<close>

record replies_args =
  ra_token :: string
  ra_channel :: string
  ra_ts :: string
  ra_limit :: nat
  ra_inclusive :: bool

record replies_data =
  messages :: "message list option"

record replies_result =
  data :: "replies_data option"

record translate_request =
  parent :: string
  contents :: "string option list"
  mimeType :: string
  targetLanguageCode :: jsval

record translation =
  translatedText :: string

record translate_response =
  resp_translations :: "translation list"

record post_args =
  pa_token :: string
  pa_channel :: string
  pa_attachments :: "attachment list" \<comment> \<open>the array handed to \<^verbatim>\<open>JSON.stringify\<close>\<close>
  pa_as_user :: bool
  pa_username :: string
  pa_thread_ts :: "string option"

datatype logmsg =
    LogProcessed
  | LogRequest request
  | LogItem item
  | LogTriggered
  | LogDelay
  | LogMessages "message list option"
  | LogTransResponse translate_response
  | LogPostData
  | LogError error

datatype effect =
    Log logmsg \<comment> \<open>\<^verbatim>\<open>context.log\<close>\<close>
  | Sleep real \<comment> \<open>\<^verbatim>\<open>await sleep(msec)\<close>\<close>
  | FetchThread replies_args \<comment> \<open>\<^verbatim>\<open>axios.post\<close> to conversations.replies\<close>
  | TranslateText translate_request \<comment> \<open>\<^verbatim>\<open>translationClient.translateText\<close>\<close>
  | PostMessage post_args \<comment> \<open>\<^verbatim>\<open>axios.post\<close> to chat.postMessage\<close>

fun is_network :: "effect \<Rightarrow> bool" where
  "is_network (FetchThread _) = True"
| "is_network (TranslateText _) = True"
| "is_network (PostMessage _) = True"
| "is_network _ = False"

fun is_sleep :: "effect \<Rightarrow> bool" where
  "is_sleep (Sleep _) = True"
| "is_sleep _ = False"

fun is_translate :: "effect \<Rightarrow> bool" where
  "is_translate (TranslateText _) = True"
| "is_translate _ = False"

fun is_post :: "effect \<Rightarrow> bool" where
  "is_post (PostMessage _) = True"
| "is_post _ = False"

fun is_error_log :: "effect \<Rightarrow> bool" where
  "is_error_log (Log (LogError _)) = True"
| "is_error_log _ = False"

text \<open>
  Everything the module reads from outside itself: the language table of
  \<^verbatim>\<open>./langcode\<close> and the signature check of \<^verbatim>\<open>./verifySignature\<close> (neither is part of
  index.js), the process environment, the draw of \<^verbatim>\<open>Math.random()\<close>, and the replies of
  the three remote calls (\<open>Inl\<close>: the promise rejects). The language table is an
  ordinary object; the field \<open>langcode\<close> holds its own enumerable properties, the keys
  that \<^verbatim>\<open>Object.keys(langcode)\<close> lists, with their values.
\<close>

record env =
  langcode :: "string \<rightharpoonup> string"
  isVerified :: "request \<Rightarrow> bool"
  random :: real
  SLACK_ACCESS_TOKEN :: string
  projectId :: string
  location :: string
  locationPath :: "string \<Rightarrow> string \<Rightarrow> string"
  conversations_replies :: "replies_args \<Rightarrow> error + replies_result"
  translateText :: "translate_request \<Rightarrow> error + translate_response"
  chat_postMessage :: "post_args \<Rightarrow> error + unit"

type_synonym 'a prog = "effect list \<times> (error + 'a)"

definition ret :: "'a \<Rightarrow> 'a prog" where
  "ret x = ([], Inr x)"

definition throw :: "error \<Rightarrow> 'a prog" where
  "throw e = ([], Inl e)"

definition emit :: "effect \<Rightarrow> unit prog" where
  "emit ef = ([ef], Inr ())"

definition bind :: "'a prog \<Rightarrow> ('a \<Rightarrow> 'b prog) \<Rightarrow> 'b prog" where
  "bind m f =
     (case m of
        (tr, Inl e) \<Rightarrow> (tr, Inl e)
      | (tr, Inr x) \<Rightarrow> (case f x of (tr', r) \<Rightarrow> (tr @ tr', r)))"

definition seq :: "unit prog \<Rightarrow> 'b prog \<Rightarrow> 'b prog" where
  "seq m k = bind m (\<lambda>_. k)"

definition try_catch :: "'a prog \<Rightarrow> (error \<Rightarrow> 'a prog) \<Rightarrow> 'a prog" where
  "try_catch m h =
     (case m of
        (tr, Inl e) \<Rightarrow> (case h e of (tr', r) \<Rightarrow> (tr @ tr', r))
      | (tr, Inr x) \<Rightarrow> (tr, Inr x))"

section \<open>Emoji to language (events, lines 87 to 104)\<close>

text \<open>\<^verbatim>\<open>\w\<close> of a JavaScript regular expression without flags: ASCII letters, digits, underscore.\<close>

definition is_word :: "char \<Rightarrow> bool" where
  "is_word c =
     (c \<in> set (''abcdefghijklmnopqrstuvwxyz'' @ ''ABCDEFGHIJKLMNOPQRSTUVWXYZ'' @ ''0123456789_''))"

text \<open>\<^verbatim>\<open>\b\<close> between the character before a position and the one after it (\<open>None\<close>: an end of the string).\<close>

definition wb :: "char option \<Rightarrow> char option \<Rightarrow> bool" where
  "wb p n =
     ((case p of None \<Rightarrow> False | Some c \<Rightarrow> is_word c) \<noteq>
      (case n of None \<Rightarrow> False | Some c \<Rightarrow> is_word c))"

text \<open>\<^verbatim>\<open>reaction.match(/flag-/)\<close>: the pattern is not anchored, so it matches anywhere.\<close>

fun match_flag :: "string \<Rightarrow> bool" where
  "match_flag [] = False"
| "match_flag (c # cs) = (prefix ''flag-'' (c # cs) \<or> match_flag cs)"

text \<open>The lookahead body \<^verbatim>\<open>flag-\b\<close> at the start of \<open>s\<close>.\<close>

definition lookahead_flag :: "string \<Rightarrow> bool" where
  "lookahead_flag s =
     (prefix ''flag-'' s \<and>
      wb (Some CHR ''-'') (case drop 5 s of [] \<Rightarrow> None | d # _ \<Rightarrow> Some d))"

text \<open>
  \<^verbatim>\<open>reaction.match(/(?!flag-\b)\b\w+/)\<close>: the leftmost position where the lookahead does
  not hold, a word boundary does, and a word character follows; the match is the longest
  run of word characters there. \<open>prev\<close> is the character before the position. \<open>None\<close>
  is the \<^verbatim>\<open>null\<close> of no match.
\<close>

fun match_country :: "char option \<Rightarrow> string \<Rightarrow> string option" where
  "match_country prev [] = None"
| "match_country prev (c # cs) =
     (if \<not> lookahead_flag (c # cs) \<and> wb prev (Some c) \<and> is_word c
      then Some (takeWhile is_word (c # cs))
      else match_country (Some c) cs)"

text \<open>
  The property names of \<^verbatim>\<open>Object.prototype\<close>, which every ordinary object inherits, and
  the read \<^verbatim>\<open>langcode[k]\<close>: an own property first, then the prototype chain; \<open>None\<close> is
  \<^verbatim>\<open>undefined\<close>.
\<close>

definition object_prototype :: "string list" where
  "object_prototype =
     [''constructor'', ''__defineGetter__'', ''__defineSetter__'', ''hasOwnProperty'',
      ''__lookupGetter__'', ''__lookupSetter__'', ''isPrototypeOf'', ''propertyIsEnumerable'',
      ''toString'', ''valueOf'', ''__proto__'', ''toLocaleString'']"

definition get_property :: "(string \<rightharpoonup> string) \<Rightarrow> string \<Rightarrow> jsval option" where
  "get_property tbl k =
     (case tbl k of
        Some v \<Rightarrow> Some (Str v)
      | None \<Rightarrow> if k \<in> set object_prototype then Some (Inherited k) else None)"

text \<open>\<^verbatim>\<open>Object.keys(langcode).includes(k)\<close>: own keys only.\<close>

definition keys_includes :: "(string \<rightharpoonup> string) \<Rightarrow> string \<Rightarrow> bool" where
  "keys_includes tbl k = (case tbl k of None \<Rightarrow> False | Some _ \<Rightarrow> True)"

text \<open>
  Lines 87 to 104 of \<^verbatim>\<open>events\<close>: \<open>Inr (Some lang)\<close> when the handler goes on with \<open>lang\<close>,
  \<open>Inr None\<close> when it returns early, \<open>Inl TypeError\<close> when \<^verbatim>\<open>match(...)[0]\<close> reads index
  0 of \<^verbatim>\<open>null\<close>. Only the branch without \<^verbatim>\<open>flag-\<close> tests \<^verbatim>\<open>Object.keys\<close>; in the
  flag branch the extracted token goes to \<^verbatim>\<open>langcode[country]\<close> as it is.
\<close>

definition lookup_lang :: "(string \<rightharpoonup> string) \<Rightarrow> string \<Rightarrow> jsval option" where
  "lookup_lang tbl country =
     (if truthy_val (get_property tbl country) then get_property tbl country else None)"

definition resolve :: "(string \<rightharpoonup> string) \<Rightarrow> string \<Rightarrow> error + jsval option" where
  "resolve tbl reaction =
     (if match_flag reaction then
        (case match_country None reaction of
           None \<Rightarrow> Inl TypeError
         | Some country \<Rightarrow> Inr (lookup_lang tbl country))
      else if keys_includes tbl reaction then Inr (lookup_lang tbl reaction)
      else Inr None)"

section \<open>The pipeline\<close>

text \<open>\<^verbatim>\<open>await\<close> of a remote call: the call is an effect, the reply is the environment's.\<close>

definition await_replies :: "env \<Rightarrow> replies_args \<Rightarrow> replies_result prog" where
  "await_replies env args = ([FetchThread args], conversations_replies env args)"

definition await_translateText :: "env \<Rightarrow> translate_request \<Rightarrow> translate_response prog" where
  "await_translateText env request = ([TranslateText request], translateText env request)"

definition await_postMessage :: "env \<Rightarrow> post_args \<Rightarrow> unit prog" where
  "await_postMessage env args = ([PostMessage args], chat_postMessage env args)"

text \<open>
  \<^verbatim>\<open>getMessage\<close> (lines 118 to 134). The \<^verbatim>\<open>axios.post\<close> is awaited before the
  \<^verbatim>\<open>try\<close> block, so its rejection leaves the function; only the read of
  \<^verbatim>\<open>result.data.messages\<close> is guarded, and the handler of the \<^verbatim>\<open>catch\<close> logs and falls
  off the end of the function, which then returns \<^verbatim>\<open>undefined\<close>.
\<close>

definition replies_args_of :: "env \<Rightarrow> string \<Rightarrow> string \<Rightarrow> replies_args" where
  "replies_args_of env channel ts =
     \<lparr>ra_token = SLACK_ACCESS_TOKEN env, ra_channel = channel, ra_ts = ts,
      ra_limit = 1, ra_inclusive = True\<rparr>"

definition getMessage :: "env \<Rightarrow> string \<Rightarrow> string \<Rightarrow> message list option prog" where
  "getMessage env channel ts =
     bind (await_replies env (replies_args_of env channel ts)) (\<lambda>result.
       try_catch
         (case data result of
            None \<Rightarrow> throw TypeError
          | Some d \<Rightarrow> ret (messages d))
         (\<lambda>e. seq (emit (Log (LogError e))) (ret None)))"

text \<open>
  \<^verbatim>\<open>isAlreadyPosted\<close> (lines 167 to 178). The \<^verbatim>\<open>forEach\<close> callback on one message, with
  the flag \<^verbatim>\<open>alreadyPosted\<close> passed through: \<^verbatim>\<open>&&\<close> evaluates left to right and stops at
  the first falsy operand, and \<^verbatim>\<open>attachments[0].text\<close> throws when \<^verbatim>\<open>attachments\<close> is
  \<^verbatim>\<open>undefined\<close> or has no element 0.
\<close>

fun forEach_posted :: "bool \<Rightarrow> message list \<Rightarrow> string \<Rightarrow> error + bool" where
  "forEach_posted alreadyPosted [] translation = Inr alreadyPosted"
| "forEach_posted alreadyPosted (m # ms) translation =
     (if \<not> alreadyPosted \<and> truthy (msg_subtype m) then
        (case msg_attachments m of
           None \<Rightarrow> Inl TypeError
         | Some [] \<Rightarrow> Inl TypeError
         | Some (a # _) \<Rightarrow>
             if att_text a = Some translation
             then forEach_posted True ms translation
             else forEach_posted alreadyPosted ms translation)
      else forEach_posted alreadyPosted ms translation)"

text \<open>The function returns \<^verbatim>\<open>true\<close> or, falling off its end, \<^verbatim>\<open>undefined\<close> (\<open>None\<close>).\<close>

definition isAlreadyPosted :: "message list \<Rightarrow> string \<Rightarrow> error + bool option" where
  "isAlreadyPosted msgs translation =
     (case forEach_posted False msgs translation of
        Inl e \<Rightarrow> Inl e
      | Inr alreadyPosted \<Rightarrow> Inr (if alreadyPosted then Some True else None))"

text \<open>\<^verbatim>\<open>postMessage\<close> (lines 181 to 221).\<close>

definition translated_attachment ::
  "string \<Rightarrow> jsval \<Rightarrow> string \<Rightarrow> string option \<Rightarrow> attachment" where
  "translated_attachment emoji lang translation original =
     \<lparr>att_pretext =
        Some (''_The message is translated in_ :'' @ emoji @ '': _('' @ to_text lang @ '')_''),
      att_text = Some translation,
      att_footer = original,
      att_mrkdwn_in = [''text'', ''pretext'']\<rparr>"

definition unsupported_attachment :: attachment where
  "unsupported_attachment =
     \<lparr>att_pretext = Some ''_Sorry, the language is not supported!_ :persevere:'',
      att_text = None,
      att_footer = None,
      att_mrkdwn_in = [''text'', ''pretext'']\<rparr>"

definition post_args_of ::
  "env \<Rightarrow> message \<Rightarrow> string \<Rightarrow> jsval \<Rightarrow> string \<Rightarrow> string \<Rightarrow> post_args" where
  "post_args_of env message translation lang channel emoji =
     (let ts = (if truthy (msg_thread_ts message) then msg_thread_ts message else msg_ts message);
          attachments =
            (if truthy (msg_text message)
             then [translated_attachment emoji lang translation (msg_text message)]
             else [unsupported_attachment])
      in \<lparr>pa_token = SLACK_ACCESS_TOKEN env, pa_channel = channel,
          pa_attachments = attachments, pa_as_user = False,
          pa_username = ''Reacjilator Bot'', pa_thread_ts = ts\<rparr>)"

definition postMessage ::
  "env \<Rightarrow> message \<Rightarrow> string \<Rightarrow> jsval \<Rightarrow> string \<Rightarrow> string \<Rightarrow> unit prog" where
  "postMessage env message translation lang channel emoji =
     bind (await_postMessage env (post_args_of env message translation lang channel emoji))
       (\<lambda>result. try_catch (emit (Log LogPostData)) (\<lambda>e. emit (Log (LogError e))))"

text \<open>
  \<^verbatim>\<open>postTranslatedMessage\<close> (lines 142 to 165). \<^verbatim>\<open>let message = messages[0]\<close> stands
  before the \<^verbatim>\<open>try\<close> block: it throws when \<^verbatim>\<open>messages\<close> is \<^verbatim>\<open>undefined\<close>. On an
  empty array it yields \<^verbatim>\<open>undefined\<close>, and \<^verbatim>\<open>message.text\<close> then throws inside the
  block. The \<^verbatim>\<open>catch\<close> clause logs the error and the function returns.
\<close>

definition translate_request_of :: "env \<Rightarrow> message \<Rightarrow> jsval \<Rightarrow> translate_request" where
  "translate_request_of env m lang =
     \<lparr>parent = locationPath env (projectId env) (location env),
      contents = [msg_text m],
      mimeType = ''text/plain'',
      targetLanguageCode = lang\<rparr>"

definition postTranslatedMessage ::
  "env \<Rightarrow> message list option \<Rightarrow> jsval \<Rightarrow> string \<Rightarrow> string \<Rightarrow> unit prog" where
  "postTranslatedMessage env msgs lang channel emoji =
     (case msgs of
        None \<Rightarrow> throw TypeError
      | Some ms \<Rightarrow>
          try_catch
            (case ms of
               [] \<Rightarrow> throw TypeError
             | m # _ \<Rightarrow>
                 (let request = translate_request_of env m lang
                  in bind (await_translateText env request) (\<lambda>response.
                       seq (emit (Log (LogTransResponse response)))
                         (case resp_translations response of
                            [] \<Rightarrow> throw TypeError
                          | t # _ \<Rightarrow>
                              (let translation = translatedText t
                               in (case isAlreadyPosted ms translation of
                                     Inl e \<Rightarrow> throw e
                                   | Inr r \<Rightarrow>
                                       if r = Some True then ret ()
                                       else postMessage env m translation lang channel emoji))))))
            (\<lambda>err. emit (Log (LogError err))))"

text \<open>\<^verbatim>\<open>events\<close> (lines 75 to 116). Every path returns \<^verbatim>\<open>undefined\<close>.\<close>

definition events :: "env \<Rightarrow> request \<Rightarrow> unit prog" where
  "events env req =
     (case body_event (req_body req) of
        None \<Rightarrow> throw TypeError
      | Some ev \<Rightarrow>
          seq (emit (Log (LogItem (ev_item ev))))
            (if ev_type ev = ''reaction_added'' then
               seq (emit (Log LogTriggered))
                 (if item_type (ev_item ev) \<noteq> ''message'' then ret ()
                  else
                    (case resolve (langcode env) (ev_reaction ev) of
                       Inl e \<Rightarrow> throw e
                     | Inr None \<Rightarrow> ret ()
                     | Inr (Some lang) \<Rightarrow>
                         seq (emit (Sleep (random env * 5000)))
                           (seq (emit (Log LogDelay))
                              (bind (getMessage env (item_channel (ev_item ev)) (item_ts (ev_item ev)))
                                 (\<lambda>msgs.
                                    seq (emit (Log (LogMessages msgs)))
                                      (postTranslatedMessage env msgs lang
                                         (item_channel (ev_item ev)) (ev_reaction ev)))))))
             else ret ()))"

text \<open>
  The exported handler (lines 37 to 71). \<open>Inr res\<close> is the \<^verbatim>\<open>context.res\<close> it leaves;
  \<open>Inl e\<close> is an invocation that fails with \<open>e\<close> before \<^verbatim>\<open>context.res\<close> is assigned.
\<close>

definition bad_request :: response where
  "bad_request = \<lparr>res_status = Some 404, res_body = StringBody ''bad request''\<rparr>"

definition handler :: "env \<Rightarrow> request \<Rightarrow> response prog" where
  "handler env req =
     seq (emit (Log LogProcessed))
       (seq (emit (Log (LogRequest req)))
          (if body_type (req_body req) = Some ''url_verification'' then
             ret \<lparr>res_status = None, res_body = ChallengeBody (body_challenge (req_body req))\<rparr>
           else if body_type (req_body req) = Some ''event_callback'' then
             (if \<not> isVerified env req then ret bad_request
              else bind (events env req) (\<lambda>result.
                     ret \<lparr>res_status = None, res_body = UndefinedBody\<rparr>))
           else ret bad_request))"

section \<open>Vocabulary of the properties\<close>

text \<open>
  A thread message is a prior translation post for the candidate \<open>t\<close> when its
  \<^verbatim>\<open>subtype\<close> is truthy and its first attachment has \<^verbatim>\<open>text\<close> equal to \<open>t\<close>
  (\<^verbatim>\<open>===\<close>: the same string).
\<close>

definition posted_translation :: "string \<Rightarrow> message \<Rightarrow> bool" where
  "posted_translation t m =
     (truthy (msg_subtype m) \<and>
      (case msg_attachments m of
         None \<Rightarrow> False
       | Some [] \<Rightarrow> False
       | Some (a # _) \<Rightarrow> att_text a = Some t))"

text \<open>
  The event of a request passes event-type validation (a \<^verbatim>\<open>reaction_added\<close> event on a
  \<^verbatim>\<open>message\<close> item) and its emoji resolves to the language code \<open>lang\<close>.
\<close>

definition passes_validation :: "env \<Rightarrow> request \<Rightarrow> event \<Rightarrow> jsval \<Rightarrow> bool" where
  "passes_validation env req ev lang =
     (body_event (req_body req) = Some ev \<and>
      ev_type ev = ''reaction_added'' \<and>
      item_type (ev_item ev) = ''message'' \<and>
      resolve (langcode env) (ev_reaction ev) = Inr (Some lang))"

text \<open>The thread fetch for the event's item returns \<open>msgs\<close> to \<^verbatim>\<open>events\<close>.\<close>

definition fetched :: "env \<Rightarrow> event \<Rightarrow> message list option \<Rightarrow> bool" where
  "fetched env ev msgs =
     (snd (getMessage env (item_channel (ev_item ev)) (item_ts (ev_item ev))) = Inr msgs)"

section \<open>Sample inputs\<close>

text \<open>Concrete payloads and environments at which the theorems below are instantiated.\<close>

definition sample_table :: "string \<rightharpoonup> string" where
  "sample_table = [''jp'' \<mapsto> ''ja'', ''fr'' \<mapsto> ''fr'']"

definition sample_message :: "string option \<Rightarrow> string option \<Rightarrow> message" where
  "sample_message txt thread =
     \<lparr>msg_text = txt, msg_ts = Some ''100.1'', msg_thread_ts = thread,
      msg_subtype = None, msg_attachments = None\<rparr>"

definition bot_reply :: "string \<Rightarrow> message" where
  "bot_reply t =
     \<lparr>msg_text = Some [], msg_ts = Some ''100.2'', msg_thread_ts = Some ''100.1'',
      msg_subtype = Some ''bot_message'',
      msg_attachments = Some [translated_attachment ''jp'' (Str ''ja'') t (Some ''Hello'')]\<rparr>"

definition broadcast_reply :: message where
  "broadcast_reply =
     \<lparr>msg_text = Some ''me too'', msg_ts = Some ''100.3'', msg_thread_ts = Some ''100.1'',
      msg_subtype = Some ''thread_broadcast'', msg_attachments = None\<rparr>"

definition replies_of :: "message list option \<Rightarrow> error + replies_result" where
  "replies_of msgs = Inr \<lparr>data = Some \<lparr>messages = msgs\<rparr>\<rparr>"

definition translated :: "string \<Rightarrow> error + translate_response" where
  "translated t = Inr \<lparr>resp_translations = [\<lparr>translatedText = t\<rparr>]\<rparr>"

definition sample_env ::
  "bool \<Rightarrow> (error + replies_result) \<Rightarrow> (error + translate_response) \<Rightarrow> (error + unit) \<Rightarrow> env" where
  "sample_env verified replies translation posted =
     \<lparr>langcode = sample_table,
      isVerified = (\<lambda>_. verified),
      random = 1 / 2,
      SLACK_ACCESS_TOKEN = ''xoxb'',
      projectId = ''p'',
      location = ''global'',
      locationPath = (\<lambda>p l. ''projects/'' @ p @ ''/locations/'' @ l),
      conversations_replies = (\<lambda>_. replies),
      translateText = (\<lambda>_. translation),
      chat_postMessage = (\<lambda>_. posted)\<rparr>"

definition sample_event :: "string \<Rightarrow> event" where
  "sample_event r =
     \<lparr>ev_type = ''reaction_added'', ev_user = ''U1'', ev_reaction = r,
      ev_item = \<lparr>item_type = ''message'', item_channel = ''C1'', item_ts = ''100.1''\<rparr>\<rparr>"

definition reaction_request :: "string \<Rightarrow> request" where
  "reaction_request r =
     \<lparr>req_body = \<lparr>body_type = Some ''event_callback'', body_challenge = None,
                   body_event = Some (sample_event r)\<rparr>\<rparr>"

definition typed_request :: "string \<Rightarrow> string option \<Rightarrow> request" where
  "typed_request ty ch =
     \<lparr>req_body = \<lparr>body_type = Some ty, body_challenge = ch, body_event = None\<rparr>\<rparr>"

section \<open>How each function runs\<close>

lemmas prog_defs = ret_def throw_def emit_def bind_def seq_def try_catch_def
  await_replies_def await_translateText_def await_postMessage_def

lemma postMessage_run:
  "postMessage env m tr lang ch emoji =
     (case chat_postMessage env (post_args_of env m tr lang ch emoji) of
        Inl e \<Rightarrow> ([PostMessage (post_args_of env m tr lang ch emoji)], Inl e)
      | Inr _ \<Rightarrow> ([PostMessage (post_args_of env m tr lang ch emoji), Log LogPostData], Inr ()))"
  by (simp add: postMessage_def prog_defs split: sum.splits)

lemma getMessage_run:
  "getMessage env ch ts =
     (case conversations_replies env (replies_args_of env ch ts) of
        Inl e \<Rightarrow> ([FetchThread (replies_args_of env ch ts)], Inl e)
      | Inr result \<Rightarrow>
          (case data result of
             None \<Rightarrow> ([FetchThread (replies_args_of env ch ts), Log (LogError TypeError)], Inr None)
           | Some d \<Rightarrow> ([FetchThread (replies_args_of env ch ts)], Inr (messages d))))"
  by (simp add: getMessage_def prog_defs split: sum.splits option.splits)

lemma postTranslatedMessage_undefined:
  "postTranslatedMessage env None lang ch emoji = ([], Inl TypeError)"
  by (simp add: postTranslatedMessage_def prog_defs)

lemma postTranslatedMessage_empty:
  "postTranslatedMessage env (Some []) lang ch emoji = ([Log (LogError TypeError)], Inr ())"
  by (simp add: postTranslatedMessage_def prog_defs)

lemma postTranslatedMessage_run:
  "postTranslatedMessage env (Some (m # ms)) lang ch emoji =
     (case translateText env (translate_request_of env m lang) of
        Inl e \<Rightarrow> ([TranslateText (translate_request_of env m lang), Log (LogError e)], Inr ())
      | Inr resp \<Rightarrow>
          (case resp_translations resp of
             [] \<Rightarrow> ([TranslateText (translate_request_of env m lang), Log (LogTransResponse resp),
                     Log (LogError TypeError)], Inr ())
           | t # _ \<Rightarrow>
               (case isAlreadyPosted (m # ms) (translatedText t) of
                  Inl e \<Rightarrow> ([TranslateText (translate_request_of env m lang),
                             Log (LogTransResponse resp), Log (LogError e)], Inr ())
                | Inr r \<Rightarrow>
                    if r = Some True
                    then ([TranslateText (translate_request_of env m lang),
                           Log (LogTransResponse resp)], Inr ())
                    else
                      (case chat_postMessage env (post_args_of env m (translatedText t) lang ch emoji) of
                         Inl e \<Rightarrow> ([TranslateText (translate_request_of env m lang),
                                    Log (LogTransResponse resp),
                                    PostMessage (post_args_of env m (translatedText t) lang ch emoji),
                                    Log (LogError e)], Inr ())
                       | Inr _ \<Rightarrow> ([TranslateText (translate_request_of env m lang),
                                    Log (LogTransResponse resp),
                                    PostMessage (post_args_of env m (translatedText t) lang ch emoji),
                                    Log LogPostData], Inr ())))))"
  by (simp add: postTranslatedMessage_def postMessage_run prog_defs
      split: sum.splits list.splits)

lemma events_run:
  assumes "body_event (req_body req) = Some ev"
  shows "events env req =
     (if ev_type ev = ''reaction_added'' then
        (if item_type (ev_item ev) \<noteq> ''message'' then
           ([Log (LogItem (ev_item ev)), Log LogTriggered], Inr ())
         else
           (case resolve (langcode env) (ev_reaction ev) of
              Inl e \<Rightarrow> ([Log (LogItem (ev_item ev)), Log LogTriggered], Inl e)
            | Inr None \<Rightarrow> ([Log (LogItem (ev_item ev)), Log LogTriggered], Inr ())
            | Inr (Some lang) \<Rightarrow>
                (case getMessage env (item_channel (ev_item ev)) (item_ts (ev_item ev)) of
                   (t1, Inl e) \<Rightarrow>
                     ([Log (LogItem (ev_item ev)), Log LogTriggered, Sleep (random env * 5000),
                       Log LogDelay] @ t1, Inl e)
                 | (t1, Inr msgs) \<Rightarrow>
                     (case postTranslatedMessage env msgs lang (item_channel (ev_item ev))
                             (ev_reaction ev) of
                        (t2, r) \<Rightarrow>
                          ([Log (LogItem (ev_item ev)), Log LogTriggered,
                            Sleep (random env * 5000), Log LogDelay] @ t1 @
                           [Log (LogMessages msgs)] @ t2, r)))))
      else ([Log (LogItem (ev_item ev))], Inr ()))"
  using assms
  by (simp add: events_def prog_defs split: sum.splits option.splits prod.splits)

lemma handler_run:
  "handler env req =
     (if body_type (req_body req) = Some ''url_verification'' then
        ([Log LogProcessed, Log (LogRequest req)],
         Inr \<lparr>res_status = None, res_body = ChallengeBody (body_challenge (req_body req))\<rparr>)
      else if body_type (req_body req) = Some ''event_callback'' then
        (if \<not> isVerified env req then ([Log LogProcessed, Log (LogRequest req)], Inr bad_request)
         else (case events env req of
                 (tr, Inl e) \<Rightarrow> ([Log LogProcessed, Log (LogRequest req)] @ tr, Inl e)
               | (tr, Inr _) \<Rightarrow> ([Log LogProcessed, Log (LogRequest req)] @ tr,
                    Inr \<lparr>res_status = None, res_body = UndefinedBody\<rparr>)))
      else ([Log LogProcessed, Log (LogRequest req)], Inr bad_request))"
  by (simp add: handler_def prog_defs split: sum.splits prod.splits)

lemma is_word_flag:
  "is_word CHR ''f''" "is_word CHR ''l''" "is_word CHR ''a''" "is_word CHR ''g''"
  "\<not> is_word CHR ''-''"
  by (simp_all add: is_word_def)

lemma lookahead_flagD:
  assumes "lookahead_flag s"
  obtains d rest where "s = ''flag-'' @ d # rest" "is_word d"
proof -
  from assms obtain zs where s: "s = ''flag-'' @ zs"
    by (auto simp: lookahead_flag_def elim: prefixE)
  with assms obtain d rest where "zs = d # rest" "is_word d"
    by (cases zs) (auto simp: lookahead_flag_def wb_def is_word_flag)
  with s that show thesis by blast
qed

lemma match_country_skip_flag:
  assumes "is_word d"
  shows "match_country prev (''flag-'' @ d # rest) = match_country (Some CHR ''-'') (d # rest)"
proof -
  have "lookahead_flag (''flag-'' @ d # rest)"
    using assms by (simp add: lookahead_flag_def wb_def is_word_flag)
  then have "match_country prev (''flag-'' @ d # rest) = match_country (Some CHR ''f'') (''lag-'' @ d # rest)"
    by simp
  also have "\<dots> = match_country (Some CHR ''l'') (''ag-'' @ d # rest)"
    by (simp add: wb_def is_word_flag lookahead_flag_def)
  also have "\<dots> = match_country (Some CHR ''a'') (''g-'' @ d # rest)"
    by (simp add: wb_def is_word_flag lookahead_flag_def)
  also have "\<dots> = match_country (Some CHR ''g'') (''-'' @ d # rest)"
    by (simp add: wb_def is_word_flag lookahead_flag_def)
  also have "\<dots> = match_country (Some CHR ''-'') (d # rest)"
    by (simp add: is_word_flag)
  finally show ?thesis .
qed

lemma match_country_word:
  assumes "\<exists>c \<in> set s. is_word c" "\<not> (case prev of None \<Rightarrow> False | Some p \<Rightarrow> is_word p)"
  shows "match_country prev s \<noteq> None"
  using assms
proof (induction "length s" arbitrary: s prev rule: less_induct)
  case less
  from less.prems(1) obtain c cs where s: "s = c # cs" by (cases s) auto
  show ?case
  proof (cases "is_word c")
    case False
    with less.prems(1) s have "\<exists>x \<in> set cs. is_word x" by auto
    moreover have "length cs < length s" using s by simp
    ultimately have "match_country (Some c) cs \<noteq> None"
      using less.hyps[of cs "Some c"] False by simp
    with False s show ?thesis by simp
  next
    case True
    show ?thesis
    proof (cases "lookahead_flag s")
      case False
      with True less.prems(2) s show ?thesis by (simp add: wb_def)
    next
      case la: True
      then obtain d rest where dr: "s = ''flag-'' @ d # rest" "is_word d"
        by (rule lookahead_flagD)
      have "match_country (Some CHR ''-'') (d # rest) \<noteq> None"
        using less.hyps[of "d # rest" "Some CHR ''-''"] dr by (simp add: is_word_flag)
      with dr show ?thesis using match_country_skip_flag[of d prev rest] by simp
    qed
  qed
qed

lemma match_flag_has_word: "match_flag s \<Longrightarrow> \<exists>c \<in> set s. is_word c"
proof (induction s)
  case Nil
  then show ?case by simp
next
  case (Cons a s)
  then show ?case by (auto simp: is_word_flag elim!: prefixE)
qed

lemma match_flag_country: "match_flag s \<Longrightarrow> \<exists>c. match_country None s = Some c"
  using match_country_word[of s None] match_flag_has_word[of s] by auto

lemma resolve_total: "resolve tbl r \<noteq> Inl e"
  using match_flag_country[of r] by (auto simp: resolve_def split: option.splits)

lemma forEach_posted_True: "forEach_posted True ms t = Inr True"
  by (induction ms) auto

lemma forEach_posted_append:
  "forEach_posted b (xs @ ys) t =
     (case forEach_posted b xs t of Inl e \<Rightarrow> Inl e | Inr b' \<Rightarrow> forEach_posted b' ys t)"
  by (induction xs arbitrary: b) (auto split: option.splits list.splits)

lemma forEach_posted_defined:
  assumes "\<forall>p \<in> set pre. truthy (msg_subtype p) \<longrightarrow> (\<exists>a as. msg_attachments p = Some (a # as))"
  shows "\<exists>b. forEach_posted b0 pre t = Inr b"
  using assms by (induction pre arbitrary: b0) auto

lemma first_match_returns_true:
  assumes "posted_translation t m"
    and "\<forall>p \<in> set pre. truthy (msg_subtype p) \<longrightarrow> (\<exists>a as. msg_attachments p = Some (a # as))"
  shows "isAlreadyPosted (pre @ m # post) t = Inr (Some True)"
proof -
  from forEach_posted_defined[OF assms(2)] obtain b where b: "forEach_posted False pre t = Inr b"
    by blast
  have "forEach_posted b (m # post) t = Inr True"
    using assms(1)
    by (cases b) (auto simp: posted_translation_def forEach_posted_True split: option.splits list.splits)
  with b show ?thesis by (simp add: isAlreadyPosted_def forEach_posted_append)
qed

lemma forEach_posted_no_match:
  assumes "\<forall>x \<in> set pre. truthy (msg_subtype x) \<longrightarrow>
             (\<exists>a as. msg_attachments x = Some (a # as) \<and> att_text a \<noteq> Some t)"
  shows "forEach_posted False pre t = Inr False"
  using assms by (induction pre) auto

lemma getMessage_no_sleep: "filter is_sleep (fst (getMessage env ch ts)) = []"
  by (simp add: getMessage_run split: sum.splits option.splits)

lemma postTranslatedMessage_no_sleep:
  "filter is_sleep (fst (postTranslatedMessage env msgs lang ch emoji)) = []"
proof (cases msgs)
  case None
  then show ?thesis by (simp add: postTranslatedMessage_undefined)
next
  case (Some ms)
  then show ?thesis
    by (cases ms)
       (simp_all add: postTranslatedMessage_empty postTranslatedMessage_run
          split: sum.splits list.splits)
qed

lemma postTranslatedMessage_returns:
  "snd (postTranslatedMessage env (Some ms) lang ch emoji) = Inr ()"
  by (cases ms)
     (simp_all add: postTranslatedMessage_empty postTranslatedMessage_run
        split: sum.splits list.splits)

lemma getMessage_head:
  "\<exists>rest. fst (getMessage env ch ts) = FetchThread (replies_args_of env ch ts) # rest
     \<and> filter is_sleep rest = [] \<and> filter is_translate rest = [] \<and> filter is_post rest = []"
  by (simp add: getMessage_run split: sum.splits option.splits)

lemma posted_args:
  assumes "PostMessage args \<in> set (fst (postTranslatedMessage env (Some (m # ms)) lang ch emoji))"
  shows "\<exists>resp t rest.
           translateText env (translate_request_of env m lang) = Inr resp
           \<and> resp_translations resp = t # rest
           \<and> args = post_args_of env m (translatedText t) lang ch emoji"
  using assms
  by (auto simp: postTranslatedMessage_run split: sum.splits list.splits if_splits)

lemma events_accepted:
  assumes "passes_validation env req ev lang"
  shows "events env req =
     (case getMessage env (item_channel (ev_item ev)) (item_ts (ev_item ev)) of
        (t1, Inl e) \<Rightarrow>
          ([Log (LogItem (ev_item ev)), Log LogTriggered, Sleep (random env * 5000),
            Log LogDelay] @ t1, Inl e)
      | (t1, Inr msgs) \<Rightarrow>
          (case postTranslatedMessage env msgs lang (item_channel (ev_item ev)) (ev_reaction ev) of
             (t2, r) \<Rightarrow>
               ([Log (LogItem (ev_item ev)), Log LogTriggered, Sleep (random env * 5000),
                 Log LogDelay] @ t1 @ [Log (LogMessages msgs)] @ t2, r)))"
  using assms by (simp add: passes_validation_def events_run[where ev = ev] split: prod.splits sum.splits)

lemma events_rejected:
  assumes "body_event (req_body req) = Some ev"
    and "ev_type ev \<noteq> ''reaction_added'' \<or> item_type (ev_item ev) \<noteq> ''message''
         \<or> resolve (langcode env) (ev_reaction ev) = Inr None"
  shows "filter is_sleep (fst (events env req)) = []"
    and "filter is_network (fst (events env req)) = []"
    and "snd (events env req) = Inr ()"
  using assms by (auto simp: events_run[where ev = ev])

lemma resolve_absent:
  assumes "tbl r = None"
    and "match_flag r \<longrightarrow>
           (\<forall>c. match_country None r = Some c \<longrightarrow> tbl c = None \<and> c \<notin> set object_prototype)"
  shows "resolve tbl r = Inr None"
proof (cases "match_flag r")
  case True
  then obtain c where "match_country None r = Some c" using match_flag_country by blast
  with True assms(2) show ?thesis
    by (simp add: resolve_def lookup_lang_def get_property_def truthy_val_def)
next
  case False
  with assms(1) show ?thesis by (simp add: resolve_def keys_includes_def)
qed

lemma missing_attachments_run:
  assumes "body_type (req_body req) = Some ''event_callback''" "isVerified env req"
    and "passes_validation env req ev lang"
    and "fetched env ev (Some (pre @ bad # post))"
    and "translateText env (translate_request_of env (hd (pre @ bad # post)) lang) = Inr resp"
    and "resp_translations resp = x # xs"
    and "truthy (msg_subtype bad)" "msg_attachments bad = None"
    and "\<forall>p \<in> set pre. truthy (msg_subtype p) \<longrightarrow>
           (\<exists>a as. msg_attachments p = Some (a # as) \<and> att_text a \<noteq> Some (translatedText x))"
  shows "isAlreadyPosted (pre @ bad # post) (translatedText x) = Inl TypeError
    \<and> postTranslatedMessage env (Some (pre @ bad # post)) lang (item_channel (ev_item ev)) (ev_reaction ev) =
        ([TranslateText (translate_request_of env (hd (pre @ bad # post)) lang),
          Log (LogTransResponse resp), Log (LogError TypeError)], Inr ())
    \<and> snd (handler env req) = Inr \<lparr>res_status = None, res_body = UndefinedBody\<rparr>
    \<and> filter is_post (fst (handler env req)) = []
    \<and> Log (LogError TypeError) \<in> set (fst (handler env req))"
proof -
  let ?ms = "pre @ bad # post"
  let ?ch = "item_channel (ev_item ev)"
  have d: "isAlreadyPosted ?ms (translatedText x) = Inl TypeError"
    using assms(7,8) forEach_posted_no_match[OF assms(9)]
    by (simp add: isAlreadyPosted_def forEach_posted_append)
  obtain y ys where ms: "?ms = y # ys" by (cases ?ms) auto
  have p: "postTranslatedMessage env (Some ?ms) lang ?ch (ev_reaction ev) =
        ([TranslateText (translate_request_of env (hd ?ms) lang),
          Log (LogTransResponse resp), Log (LogError TypeError)], Inr ())"
    using assms(5,6) d unfolding ms by (simp add: postTranslatedMessage_run)
  obtain rest where g: "fst (getMessage env ?ch (item_ts (ev_item ev))) =
      FetchThread (replies_args_of env ?ch (item_ts (ev_item ev))) # rest"
    "filter is_post rest = []"
    using getMessage_head by blast
  have s: "snd (getMessage env ?ch (item_ts (ev_item ev))) = Inr (Some ?ms)"
    using assms(4) by (simp add: fetched_def)
  have e: "events env req =
      ([Log (LogItem (ev_item ev)), Log LogTriggered, Sleep (random env * 5000), Log LogDelay] @
       fst (getMessage env ?ch (item_ts (ev_item ev))) @ [Log (LogMessages (Some ?ms))] @
       [TranslateText (translate_request_of env (hd ?ms) lang),
        Log (LogTransResponse resp), Log (LogError TypeError)], Inr ())"
    using s p
    by (cases "getMessage env ?ch (item_ts (ev_item ev))") (simp add: events_accepted[OF assms(3)])
  have h: "handler env req =
      ([Log LogProcessed, Log (LogRequest req)] @ fst (events env req),
       Inr \<lparr>res_status = None, res_body = UndefinedBody\<rparr>)"
    using assms(1,2) e by (simp add: handler_run)
  show ?thesis using d p h e g by simp
qed

lemma absent_emoji_no_effects:
  assumes "body_event (req_body req) = Some ev"
    and "langcode env (ev_reaction ev) = None"
    and "match_flag (ev_reaction ev) \<longrightarrow>
           (\<forall>c. match_country None (ev_reaction ev) = Some c \<longrightarrow>
                langcode env c = None \<and> c \<notin> set object_prototype)"
  shows "resolve (langcode env) (ev_reaction ev) = Inr None
    \<and> filter is_network (fst (events env req)) = []
    \<and> filter is_sleep (fst (events env req)) = []
    \<and> snd (events env req) = Inr ()
    \<and> filter is_network (fst (handler env req)) = []
    \<and> filter is_sleep (fst (handler env req)) = []"
proof -
  have r: "resolve (langcode env) (ev_reaction ev) = Inr None"
    using assms(2,3) by (rule resolve_absent)
  then have e: "filter is_sleep (fst (events env req)) = []"
    "filter is_network (fst (events env req)) = []" "snd (events env req) = Inr ()"
    using events_rejected[OF assms(1), of env] by simp_all
  then have "filter is_network (fst (handler env req)) = []"
    "filter is_sleep (fst (handler env req)) = []"
    by (cases "events env req"; simp add: handler_run split: sum.splits)+
  with r e show ?thesis by simp
qed

lemma sleep_iff:
  assumes "passes_validation env req ev lang"
  shows "Sleep d \<in> set (fst (events env req)) \<longleftrightarrow> d = random env * 5000"
proof -
  have n1: "Sleep d \<notin> set (fst (getMessage env (item_channel (ev_item ev)) (item_ts (ev_item ev))))"
    using getMessage_no_sleep[of env "item_channel (ev_item ev)" "item_ts (ev_item ev)"]
    by (auto simp: filter_empty_conv)
  have n2: "Sleep d \<notin> set (fst (postTranslatedMessage env msgs lang
              (item_channel (ev_item ev)) (ev_reaction ev)))" for msgs
    using postTranslatedMessage_no_sleep[of env msgs lang "item_channel (ev_item ev)" "ev_reaction ev"]
    by (auto simp: filter_empty_conv)
  show ?thesis
  proof (cases "getMessage env (item_channel (ev_item ev)) (item_ts (ev_item ev))")
    case (Pair t1 r1)
    show ?thesis
    proof (cases r1)
      case (Inl e)
      with Pair n1 show ?thesis by (auto simp: events_accepted[OF assms])
    next
      case (Inr msgs)
      with Pair n1 n2[of msgs] show ?thesis
        by (cases "postTranslatedMessage env msgs lang (item_channel (ev_item ev)) (ev_reaction ev)")
           (auto simp: events_accepted[OF assms])
    qed
  qed
qed

lemma passes_validation_random:
  "passes_validation (env\<lparr>random := r\<rparr>) req ev lang = passes_validation env req ev lang"
  by (simp add: passes_validation_def)

lemma sleep_interval:
  assumes "passes_validation env req ev lang" "0 \<le> a" "a \<le> b" "b \<le> 5000"
  shows "{r. 0 \<le> r \<and> r < 1 \<and>
            (\<exists>d. Sleep d \<in> set (fst (events (env\<lparr>random := r\<rparr>) req)) \<and> a \<le> d \<and> d < b)} =
         {a / 5000 ..< b / 5000}"
proof -
  have "\<And>r. (\<exists>d. Sleep d \<in> set (fst (events (env\<lparr>random := r\<rparr>) req)) \<and> a \<le> d \<and> d < b)
           \<longleftrightarrow> a \<le> r * 5000 \<and> r * 5000 < b"
    using sleep_iff[of "env\<lparr>random := _\<rparr>" req ev lang] assms(1)
    by (simp add: passes_validation_random)
  then show ?thesis using assms(2-4) by (auto simp: field_simps)
qed

section \<open>The sample inputs, evaluated\<close>

lemmas sample_defs = sample_env_def sample_message_def bot_reply_def
  broadcast_reply_def replies_of_def translated_def sample_event_def reaction_request_def
  typed_request_def

lemma resolve_sample_jp: "resolve sample_table ''jp'' = Inr (Some (Str ''ja''))"
  by (simp add: resolve_def sample_table_def keys_includes_def lookup_lang_def get_property_def truthy_val_def
      object_prototype_def)

lemma resolve_sample_flag_jp: "resolve sample_table ''flag-jp'' = Inr (Some (Str ''ja''))"
  by (simp add: resolve_def sample_table_def keys_includes_def lookup_lang_def get_property_def truthy_val_def
      object_prototype_def
      lookahead_flag_def wb_def is_word_def)

lemma resolve_sample_thumbsup: "resolve sample_table ''thumbsup'' = Inr None"
  by (simp add: resolve_def sample_table_def keys_includes_def lookup_lang_def get_property_def truthy_val_def
      object_prototype_def)

lemma resolve_sample_flag_constructor:
  "resolve sample_table ''flag-constructor'' = Inr (Some (Inherited ''constructor''))"
  by (simp add: resolve_def sample_table_def keys_includes_def lookup_lang_def get_property_def
      truthy_val_def object_prototype_def lookahead_flag_def wb_def is_word_def)

lemma passes_sample:
  "passes_validation (sample_env v r t p) (reaction_request ''jp'') (sample_event ''jp'') (Str ''ja'')"
  "passes_validation (sample_env v r t p) (reaction_request ''flag-jp'') (sample_event ''flag-jp'') (Str ''ja'')"
  by (simp_all add: passes_validation_def resolve_sample_jp resolve_sample_flag_jp
      sample_env_def reaction_request_def sample_event_def)

section \<open>C1: exceptions of the pipeline steps at the handler's boundary\<close>

text \<open>
  C1. For an authenticated \<^verbatim>\<open>event_callback\<close> request, every exception raised by thread
  fetch, translate, duplicate check and post is to be caught, logged and swallowed, and the
  caller is to receive a non-error response. The \<^verbatim>\<open>try\<close> block of
  \<^verbatim>\<open>postTranslatedMessage\<close> does this for translate, duplicate check and post
  (\<open>postTranslatedMessage_returns\<close>). The thread fetch is outside it: \<^verbatim>\<open>getMessage\<close>
  awaits \<^verbatim>\<open>axios.post\<close> before its own \<^verbatim>\<open>try\<close>, and neither \<^verbatim>\<open>events\<close> nor the
  exported handler has a \<^verbatim>\<open>catch\<close>. When the fetch is rejected for the reaction \<^verbatim>\<open>jp\<close>
  the run ends in the rejection: nothing is logged after the call and \<^verbatim>\<open>context.res\<close> is
  never assigned.
\<close>

theorem fetch_rejection_escapes:
  "handler (sample_env True (Inl AxiosError) (translated ''Konnichiwa'') (Inr ()))
      (reaction_request ''jp'') =
     ([Log LogProcessed, Log (LogRequest (reaction_request ''jp'')),
       Log (LogItem (ev_item (sample_event ''jp''))), Log LogTriggered, Sleep 2500, Log LogDelay,
       FetchThread \<lparr>ra_token = ''xoxb'', ra_channel = ''C1'', ra_ts = ''100.1'',
                    ra_limit = 1, ra_inclusive = True\<rparr>],
      Inl AxiosError)"
  by (simp add: handler_run events_run[where ev = "sample_event ''jp''"] getMessage_run
      replies_args_of_def resolve_sample_jp sample_env_def sample_event_def reaction_request_def)

section \<open>C2: a reacted-to message with empty text\<close>

text \<open>
  The request to the translation provider is built from \<^verbatim>\<open>message.text\<close> and sent
  without looking at it; \<^verbatim>\<open>postMessage\<close> alone tests the text. A file-only message
  (text \<^verbatim>\<open>""\<close>) under the reaction \<^verbatim>\<open>jp\<close> therefore sends one translation request,
  with the empty string as its content, before the "not supported" reply is posted.
\<close>

theorem empty_text_translation_requested:
  "handler (sample_env True (replies_of (Some [sample_message (Some []) None]))
              (translated []) (Inr ()))
      (reaction_request ''jp'') =
     ([Log LogProcessed, Log (LogRequest (reaction_request ''jp'')),
       Log (LogItem (ev_item (sample_event ''jp''))), Log LogTriggered, Sleep 2500, Log LogDelay,
       FetchThread \<lparr>ra_token = ''xoxb'', ra_channel = ''C1'', ra_ts = ''100.1'',
                    ra_limit = 1, ra_inclusive = True\<rparr>,
       Log (LogMessages (Some [sample_message (Some []) None])),
       TranslateText \<lparr>parent = ''projects/p/locations/global'', contents = [Some []],
                      mimeType = ''text/plain'', targetLanguageCode = Str ''ja''\<rparr>,
       Log (LogTransResponse \<lparr>resp_translations = [\<lparr>translatedText = []\<rparr>]\<rparr>),
       PostMessage \<lparr>pa_token = ''xoxb'', pa_channel = ''C1'',
                    pa_attachments = [unsupported_attachment], pa_as_user = False,
                    pa_username = ''Reacjilator Bot'', pa_thread_ts = Some ''100.1''\<rparr>,
       Log LogPostData],
      Inr \<lparr>res_status = None, res_body = UndefinedBody\<rparr>)"
  by (simp add: handler_run events_run[where ev = "sample_event ''jp''"] getMessage_run
      postTranslatedMessage_run isAlreadyPosted_def post_args_of_def translate_request_of_def
      replies_args_of_def resolve_sample_jp truthy_def sample_defs)

text \<open>
  C2, as the code has it. For every first message whose text is empty or absent, the
  translation provider is called exactly once, with that text as the only content; and
  every reply posted in the run is the fixed "not supported" attachment, which has no
  body text and no footer.
\<close>

theorem empty_text_still_translated:
  assumes "\<not> truthy (msg_text m)"
  shows "filter is_translate (fst (postTranslatedMessage env (Some (m # ms)) lang ch emoji)) =
           [TranslateText (translate_request_of env m lang)]
    \<and> contents (translate_request_of env m lang) = [msg_text m]
    \<and> (\<forall>args. PostMessage args \<in> set (fst (postTranslatedMessage env (Some (m # ms)) lang ch emoji))
          \<longrightarrow> pa_attachments args =
                [\<lparr>att_pretext = Some ''_Sorry, the language is not supported!_ :persevere:'',
                  att_text = None, att_footer = None,
                  att_mrkdwn_in = [''text'', ''pretext'']\<rparr>])"
proof (intro conjI allI impI)
  show "filter is_translate (fst (postTranslatedMessage env (Some (m # ms)) lang ch emoji)) =
           [TranslateText (translate_request_of env m lang)]"
    by (simp add: postTranslatedMessage_run split: sum.splits list.splits)
  show "contents (translate_request_of env m lang) = [msg_text m]"
    by (simp add: translate_request_of_def)
next
  fix args
  assume "PostMessage args \<in> set (fst (postTranslatedMessage env (Some (m # ms)) lang ch emoji))"
  from posted_args[OF this] assms
  show "pa_attachments args =
                [\<lparr>att_pretext = Some ''_Sorry, the language is not supported!_ :persevere:'',
                  att_text = None, att_footer = None,
                  att_mrkdwn_in = [''text'', ''pretext'']\<rparr>]"
    by (auto simp: post_args_of_def unsupported_attachment_def)
qed

theorem empty_text_still_translated_witness:
  "\<not> truthy (msg_text (sample_message (Some []) None))
   \<and> filter is_translate
        (fst (postTranslatedMessage (sample_env True (replies_of None) (translated []) (Inr ()))
                (Some [sample_message (Some []) None]) (Str ''ja'') ''C1'' ''jp'')) =
        [TranslateText \<lparr>parent = ''projects/p/locations/global'', contents = [Some []],
                        mimeType = ''text/plain'', targetLanguageCode = Str ''ja''\<rparr>]
   \<and> PostMessage \<lparr>pa_token = ''xoxb'', pa_channel = ''C1'',
                    pa_attachments = [unsupported_attachment], pa_as_user = False,
                    pa_username = ''Reacjilator Bot'', pa_thread_ts = Some ''100.1''\<rparr>
        \<in> set (fst (postTranslatedMessage (sample_env True (replies_of None) (translated []) (Inr ()))
                (Some [sample_message (Some []) None]) (Str ''ja'') ''C1'' ''jp''))
   \<and> pa_attachments \<lparr>pa_token = ''xoxb'', pa_channel = ''C1'',
                    pa_attachments = [unsupported_attachment], pa_as_user = False,
                    pa_username = ''Reacjilator Bot'', pa_thread_ts = Some ''100.1''\<rparr> =
        [\<lparr>att_pretext = Some ''_Sorry, the language is not supported!_ :persevere:'',
          att_text = None, att_footer = None, att_mrkdwn_in = [''text'', ''pretext'']\<rparr>]"
  using empty_text_still_translated[of "sample_message (Some []) None"
      "sample_env True (replies_of None) (translated []) (Inr ())" "[]" "Str ''ja''" "''C1''" "''jp''"]
  by (simp add: postTranslatedMessage_run isAlreadyPosted_def post_args_of_def
      translate_request_of_def truthy_def sample_defs unsupported_attachment_def)

section \<open>C3: the duplicate guard\<close>

text \<open>
  C3. A thread that contains a prior translation post for the candidate is to make the
  duplicate check return \<^verbatim>\<open>true\<close> and keep the reply from being posted, whatever the
  order of the other thread messages. The callback of \<^verbatim>\<open>forEach\<close> reads
  \<^verbatim>\<open>attachments[0].text\<close> of every subtype-marked message it meets while
  \<^verbatim>\<open>alreadyPosted\<close> is false, without a test that \<^verbatim>\<open>attachments\<close> is there (line 171).
  The check does return \<^verbatim>\<open>true\<close> when every subtype-marked message ahead of the first
  match has a first attachment (\<open>first_match_returns_true\<close>). In the thread below a
  broadcast reply (subtype \<^verbatim>\<open>thread_broadcast\<close>, no attachments) stands ahead of the
  earlier translation post: the check throws a TypeError instead of returning. The
  \<^verbatim>\<open>catch\<close> clause of \<^verbatim>\<open>postTranslatedMessage\<close> logs it and nothing is posted.
\<close>

theorem duplicate_check_raises_before_match:
  "bot_reply ''Konnichiwa'' \<in> set [sample_message (Some ''Hello'') None, broadcast_reply, bot_reply ''Konnichiwa'']
   \<and> posted_translation ''Konnichiwa'' (bot_reply ''Konnichiwa'')
   \<and> isAlreadyPosted [sample_message (Some ''Hello'') None, broadcast_reply, bot_reply ''Konnichiwa'']
        ''Konnichiwa'' = Inl TypeError
   \<and> handler
        (sample_env True
           (replies_of (Some [sample_message (Some ''Hello'') None, broadcast_reply,
                              bot_reply ''Konnichiwa'']))
           (translated ''Konnichiwa'') (Inr ()))
        (reaction_request ''jp'') =
       ([Log LogProcessed, Log (LogRequest (reaction_request ''jp'')),
         Log (LogItem (ev_item (sample_event ''jp''))), Log LogTriggered, Sleep 2500, Log LogDelay,
         FetchThread \<lparr>ra_token = ''xoxb'', ra_channel = ''C1'', ra_ts = ''100.1'',
                      ra_limit = 1, ra_inclusive = True\<rparr>,
         Log (LogMessages (Some [sample_message (Some ''Hello'') None, broadcast_reply,
                                 bot_reply ''Konnichiwa''])),
         TranslateText \<lparr>parent = ''projects/p/locations/global'', contents = [Some ''Hello''],
                        mimeType = ''text/plain'', targetLanguageCode = Str ''ja''\<rparr>,
         Log (LogTransResponse \<lparr>resp_translations = [\<lparr>translatedText = ''Konnichiwa''\<rparr>]\<rparr>),
         Log (LogError TypeError)],
        Inr \<lparr>res_status = None, res_body = UndefinedBody\<rparr>)"
  by (simp add: handler_run events_run[where ev = "sample_event ''jp''"] getMessage_run
      postTranslatedMessage_run isAlreadyPosted_def posted_translation_def translated_attachment_def
      translate_request_of_def replies_args_of_def resolve_sample_jp truthy_def sample_defs)

section \<open>C4: an emoji that is not in the language table\<close>

text \<open>
  C4. An emoji name that is absent from the language table, as a key of its own and through
  the token extracted after \<^verbatim>\<open>flag-\<close>, is to resolve to no language and to cause no
  network call and no delay. The branch for plain names tests
  \<^verbatim>\<open>Object.keys(langcode).includes(reaction)\<close> first and behaves so. The flag branch hands
  the token to \<^verbatim>\<open>langcode[country]\<close> without that test (lines 90, 91 and 103), and the
  read follows the prototype chain: for the emoji \<^verbatim>\<open>flag-constructor\<close> the token
  \<^verbatim>\<open>constructor\<close> is no key of the table, yet the read yields the inherited
  \<^verbatim>\<open>Object\<close> function, which is truthy. The run below sleeps, fetches the thread and hands
  the function to the translation client as the target language. Tokens that
  \<^verbatim>\<open>Object.prototype\<close> does not name behave as stated (\<open>absent_emoji_no_effects\<close>).
\<close>

theorem inherited_token_resolves:
  "sample_table ''flag-constructor'' = None
   \<and> match_country None ''flag-constructor'' = Some ''constructor''
   \<and> sample_table ''constructor'' = None
   \<and> resolve sample_table ''flag-constructor'' = Inr (Some (Inherited ''constructor''))
   \<and> handler
        (sample_env True (replies_of (Some [sample_message (Some ''Hello'') None]))
           (Inl TranslateError) (Inr ()))
        (reaction_request ''flag-constructor'') =
       ([Log LogProcessed, Log (LogRequest (reaction_request ''flag-constructor'')),
         Log (LogItem (ev_item (sample_event ''flag-constructor''))), Log LogTriggered,
         Sleep 2500, Log LogDelay,
         FetchThread \<lparr>ra_token = ''xoxb'', ra_channel = ''C1'', ra_ts = ''100.1'',
                      ra_limit = 1, ra_inclusive = True\<rparr>,
         Log (LogMessages (Some [sample_message (Some ''Hello'') None])),
         TranslateText \<lparr>parent = ''projects/p/locations/global'', contents = [Some ''Hello''],
                        mimeType = ''text/plain'',
                        targetLanguageCode = Inherited ''constructor''\<rparr>,
         Log (LogError TranslateError)],
        Inr \<lparr>res_status = None, res_body = UndefinedBody\<rparr>)"
proof -
  have t: "sample_table ''flag-constructor'' = None" "sample_table ''constructor'' = None"
    by (simp_all add: sample_table_def)
  have m: "match_country None ''flag-constructor'' = Some ''constructor''"
    by (simp add: lookahead_flag_def wb_def is_word_def)
  have h: "handler
        (sample_env True (replies_of (Some [sample_message (Some ''Hello'') None]))
           (Inl TranslateError) (Inr ()))
        (reaction_request ''flag-constructor'') =
       ([Log LogProcessed, Log (LogRequest (reaction_request ''flag-constructor'')),
         Log (LogItem (ev_item (sample_event ''flag-constructor''))), Log LogTriggered,
         Sleep 2500, Log LogDelay,
         FetchThread \<lparr>ra_token = ''xoxb'', ra_channel = ''C1'', ra_ts = ''100.1'',
                      ra_limit = 1, ra_inclusive = True\<rparr>,
         Log (LogMessages (Some [sample_message (Some ''Hello'') None])),
         TranslateText \<lparr>parent = ''projects/p/locations/global'', contents = [Some ''Hello''],
                        mimeType = ''text/plain'',
                        targetLanguageCode = Inherited ''constructor''\<rparr>,
         Log (LogError TranslateError)],
        Inr \<lparr>res_status = None, res_body = UndefinedBody\<rparr>)"
    by (simp add: handler_run events_run[where ev = "sample_event ''flag-constructor''"]
        getMessage_run postTranslatedMessage_run translate_request_of_def replies_args_of_def
        resolve_sample_flag_constructor sample_defs)
  show ?thesis using t m h resolve_sample_flag_constructor by simp
qed

section \<open>C5: a thread fetch without messages\<close>

text \<open>
  C5. When the fetch yields an empty or an absent message sequence, the pipeline is to stop
  without a post and the failure is to be logged. On an empty array this is what happens
  (\<open>postTranslatedMessage_empty\<close>: the TypeError of \<^verbatim>\<open>message.text\<close> is caught and
  logged). On \<^verbatim>\<open>undefined\<close>, which \<^verbatim>\<open>getMessage\<close> returns for a reply without a
  \<^verbatim>\<open>messages\<close> field, \<^verbatim>\<open>messages[0]\<close> throws before the \<^verbatim>\<open>try\<close> block is entered:
  nothing is posted, but no error is logged either and the invocation fails.
\<close>

theorem undefined_messages_escape:
  "handler (sample_env True (replies_of None) (translated ''Konnichiwa'') (Inr ()))
      (reaction_request ''jp'') =
     ([Log LogProcessed, Log (LogRequest (reaction_request ''jp'')),
       Log (LogItem (ev_item (sample_event ''jp''))), Log LogTriggered, Sleep 2500, Log LogDelay,
       FetchThread \<lparr>ra_token = ''xoxb'', ra_channel = ''C1'', ra_ts = ''100.1'',
                    ra_limit = 1, ra_inclusive = True\<rparr>,
       Log (LogMessages None)],
      Inl TypeError)"
  by (simp add: handler_run events_run[where ev = "sample_event ''jp''"] getMessage_run
      postTranslatedMessage_undefined replies_of_def
      replies_args_of_def resolve_sample_jp sample_env_def sample_event_def reaction_request_def)

section \<open>C6: the jittered sleep\<close>

text \<open>
  C6. The sleep lasts 5000 times the draw of \<^verbatim>\<open>Math.random()\<close>, a number in \<open>[0, 1)\<close>,
  hence a duration in \<open>[0, 5000)\<close>. For an event that passes event-type validation and
  language resolution the run starts with the two log lines of the validation, then the
  sleep, then its log line, then the thread fetch, and sleeps only that once. An event
  rejected as non-reaction, non-message or unresolved emoji neither sleeps nor calls the
  network. The duration is uniform on \<open>[0, 5000)\<close> as far as the draw is uniform on
  \<open>[0, 1)\<close>: the draws for which the sleep falls in \<open>[a, b)\<close> are exactly those of
  the interval \<open>[a / 5000, b / 5000)\<close>.
\<close>

theorem jitter_after_validation:
  assumes "0 \<le> random env" "random env < 1" "body_event (req_body req) = Some ev"
  shows "(\<forall>lang. passes_validation env req ev lang \<longrightarrow>
            (\<exists>rest. fst (events env req) =
                [Log (LogItem (ev_item ev)), Log LogTriggered, Sleep (random env * 5000),
                 Log LogDelay,
                 FetchThread (replies_args_of env (item_channel (ev_item ev)) (item_ts (ev_item ev)))]
                @ rest
              \<and> filter is_sleep rest = [])
            \<and> 0 \<le> random env * 5000 \<and> random env * 5000 < 5000)
    \<and> (ev_type ev \<noteq> ''reaction_added'' \<or> item_type (ev_item ev) \<noteq> ''message''
        \<or> resolve (langcode env) (ev_reaction ev) = Inr None \<longrightarrow>
          filter is_sleep (fst (events env req)) = []
          \<and> filter is_network (fst (events env req)) = [])
    \<and> (\<forall>lang a b. passes_validation env req ev lang \<and> 0 \<le> a \<and> a \<le> b \<and> b \<le> 5000 \<longrightarrow>
          {r. 0 \<le> r \<and> r < 1 \<and>
              (\<exists>d. Sleep d \<in> set (fst (events (env\<lparr>random := r\<rparr>) req)) \<and> a \<le> d \<and> d < b)} =
          {a / 5000 ..< b / 5000})"
proof (intro conjI allI impI)
  fix lang
  assume p: "passes_validation env req ev lang"
  obtain rest where g: "fst (getMessage env (item_channel (ev_item ev)) (item_ts (ev_item ev))) =
      FetchThread (replies_args_of env (item_channel (ev_item ev)) (item_ts (ev_item ev))) # rest"
    "filter is_sleep rest = []"
    using getMessage_head by blast
  show "\<exists>rest. fst (events env req) =
                [Log (LogItem (ev_item ev)), Log LogTriggered, Sleep (random env * 5000),
                 Log LogDelay,
                 FetchThread (replies_args_of env (item_channel (ev_item ev)) (item_ts (ev_item ev)))]
                @ rest
              \<and> filter is_sleep rest = []"
  proof (cases "getMessage env (item_channel (ev_item ev)) (item_ts (ev_item ev))")
    case (Pair t1 r1)
    show ?thesis
    proof (cases r1)
      case (Inl e)
      with Pair g show ?thesis by (simp add: events_accepted[OF p])
    next
      case (Inr msgs)
      with Pair g
        postTranslatedMessage_no_sleep[of env msgs lang "item_channel (ev_item ev)" "ev_reaction ev"]
      show ?thesis
        by (cases "postTranslatedMessage env msgs lang (item_channel (ev_item ev)) (ev_reaction ev)")
           (simp add: events_accepted[OF p])
    qed
  qed
  show "0 \<le> random env * 5000" using assms(1) by simp
  show "random env * 5000 < 5000" using assms(2) by simp
next
  assume "ev_type ev \<noteq> ''reaction_added'' \<or> item_type (ev_item ev) \<noteq> ''message''
        \<or> resolve (langcode env) (ev_reaction ev) = Inr None"
  then show "filter is_sleep (fst (events env req)) = []"
    and "filter is_network (fst (events env req)) = []"
    using events_rejected[OF assms(3)] by blast+
next
  fix lang and a b :: real
  assume "passes_validation env req ev lang \<and> 0 \<le> a \<and> a \<le> b \<and> b \<le> 5000"
  then show "{r. 0 \<le> r \<and> r < 1 \<and>
              (\<exists>d. Sleep d \<in> set (fst (events (env\<lparr>random := r\<rparr>) req)) \<and> a \<le> d \<and> d < b)} =
          {a / 5000 ..< b / 5000}"
    using sleep_interval[of env req ev lang a b] by blast
qed

theorem jitter_after_validation_witness:
  "0 \<le> random (sample_env True (Inl AxiosError) (translated ''x'') (Inr ()))
   \<and> random (sample_env True (Inl AxiosError) (translated ''x'') (Inr ())) < 1
   \<and> body_event (req_body (reaction_request ''jp'')) = Some (sample_event ''jp'')
   \<and> passes_validation (sample_env True (Inl AxiosError) (translated ''x'') (Inr ()))
        (reaction_request ''jp'') (sample_event ''jp'') (Str ''ja'')
   \<and> (\<exists>rest. fst (events (sample_env True (Inl AxiosError) (translated ''x'') (Inr ()))
                      (reaction_request ''jp'')) =
        [Log (LogItem (ev_item (sample_event ''jp''))), Log LogTriggered, Sleep 2500, Log LogDelay,
         FetchThread \<lparr>ra_token = ''xoxb'', ra_channel = ''C1'', ra_ts = ''100.1'',
                      ra_limit = 1, ra_inclusive = True\<rparr>] @ rest
        \<and> filter is_sleep rest = [])
   \<and> body_event (req_body (reaction_request ''thumbsup'')) = Some (sample_event ''thumbsup'')
   \<and> resolve (langcode (sample_env True (Inl AxiosError) (translated ''x'') (Inr ())))
        (ev_reaction (sample_event ''thumbsup'')) = Inr None
   \<and> filter is_sleep (fst (events (sample_env True (Inl AxiosError) (translated ''x'') (Inr ()))
        (reaction_request ''thumbsup''))) = []
   \<and> filter is_network (fst (events (sample_env True (Inl AxiosError) (translated ''x'') (Inr ()))
        (reaction_request ''thumbsup''))) = []"
proof -
  let ?env = "sample_env True (Inl AxiosError) (translated ''x'') (Inr ())"
  have r0: "0 \<le> random ?env" and r1: "random ?env < 1"
    by (simp_all add: sample_env_def)
  have a1: "body_event (req_body (reaction_request ''jp'')) = Some (sample_event ''jp'')"
    by (simp add: reaction_request_def)
  have a2: "passes_validation ?env (reaction_request ''jp'') (sample_event ''jp'') (Str ''ja'')"
    by (rule passes_sample)
  have b1: "body_event (req_body (reaction_request ''thumbsup'')) = Some (sample_event ''thumbsup'')"
    by (simp add: reaction_request_def)
  have b2: "resolve (langcode ?env) (ev_reaction (sample_event ''thumbsup'')) = Inr None"
    by (simp add: sample_env_def sample_event_def resolve_sample_thumbsup)
  have v: "random ?env * 5000 = 2500"
    "replies_args_of ?env (item_channel (ev_item (sample_event ''jp'')))
        (item_ts (ev_item (sample_event ''jp''))) =
      \<lparr>ra_token = ''xoxb'', ra_channel = ''C1'', ra_ts = ''100.1'', ra_limit = 1, ra_inclusive = True\<rparr>"
    by (simp_all add: sample_env_def sample_event_def replies_args_of_def)
  note ja = jitter_after_validation[OF r0 r1 a1]
  note up = jitter_after_validation[OF r0 r1 b1]
  from ja a2 have "\<exists>rest. fst (events ?env (reaction_request ''jp'')) =
        [Log (LogItem (ev_item (sample_event ''jp''))), Log LogTriggered, Sleep 2500, Log LogDelay,
         FetchThread \<lparr>ra_token = ''xoxb'', ra_channel = ''C1'', ra_ts = ''100.1'',
                      ra_limit = 1, ra_inclusive = True\<rparr>] @ rest
        \<and> filter is_sleep rest = []"
    unfolding v by blast
  moreover from up b2 have "filter is_sleep (fst (events ?env (reaction_request ''thumbsup''))) = []"
    "filter is_network (fst (events ?env (reaction_request ''thumbsup''))) = []"
    by blast+
  ultimately show ?thesis using r0 r1 a1 a2 b1 b2 by blast
qed

section \<open>C7: one translation request, at most one post\<close>

text \<open>
  C7. Let an event pass event-type validation and language resolution, let the fetch
  return a thread with first message \<open>m\<close>, let the provider return a translation, and let
  the duplicate check pass (it returns \<^verbatim>\<open>undefined\<close>). Then the run of \<^verbatim>\<open>events\<close>
  contains exactly one translation request, the one for \<open>m\<close>, and one post action, hence
  at most one.
\<close>

theorem one_translation_one_post:
  assumes "passes_validation env req ev lang"
    and "fetched env ev (Some (m # ms))"
    and "translateText env (translate_request_of env m lang) = Inr resp"
    and "resp_translations resp = t # ts"
    and "isAlreadyPosted (m # ms) (translatedText t) = Inr None"
  shows "filter is_translate (fst (events env req)) = [TranslateText (translate_request_of env m lang)]
    \<and> filter is_post (fst (events env req)) =
        [PostMessage (post_args_of env m (translatedText t) lang (item_channel (ev_item ev)) (ev_reaction ev))]
    \<and> length (filter is_translate (fst (events env req))) = 1
    \<and> length (filter is_post (fst (events env req))) \<le> 1"
proof -
  obtain rest where g: "fst (getMessage env (item_channel (ev_item ev)) (item_ts (ev_item ev))) =
      FetchThread (replies_args_of env (item_channel (ev_item ev)) (item_ts (ev_item ev))) # rest"
    "filter is_translate rest = []" "filter is_post rest = []"
    using getMessage_head by blast
  have s: "snd (getMessage env (item_channel (ev_item ev)) (item_ts (ev_item ev))) = Inr (Some (m # ms))"
    using assms(2) by (simp add: fetched_def)
  show ?thesis
    using g s assms(3-5)
    by (cases "getMessage env (item_channel (ev_item ev)) (item_ts (ev_item ev))")
       (auto simp: events_accepted[OF assms(1)] postTranslatedMessage_run split: sum.splits)
qed

theorem one_translation_one_post_witness:
  "passes_validation
      (sample_env True (replies_of (Some [sample_message (Some ''Hello'') None]))
         (translated ''Konnichiwa'') (Inr ()))
      (reaction_request ''flag-jp'') (sample_event ''flag-jp'') (Str ''ja'')
   \<and> fetched
      (sample_env True (replies_of (Some [sample_message (Some ''Hello'') None]))
         (translated ''Konnichiwa'') (Inr ()))
      (sample_event ''flag-jp'') (Some [sample_message (Some ''Hello'') None])
   \<and> translateText
      (sample_env True (replies_of (Some [sample_message (Some ''Hello'') None]))
         (translated ''Konnichiwa'') (Inr ()))
      (translate_request_of
         (sample_env True (replies_of (Some [sample_message (Some ''Hello'') None]))
            (translated ''Konnichiwa'') (Inr ()))
         (sample_message (Some ''Hello'') None) (Str ''ja'')) =
        Inr \<lparr>resp_translations = [\<lparr>translatedText = ''Konnichiwa''\<rparr>]\<rparr>
   \<and> isAlreadyPosted [sample_message (Some ''Hello'') None] ''Konnichiwa'' = Inr None
   \<and> filter is_translate
        (fst (events
           (sample_env True (replies_of (Some [sample_message (Some ''Hello'') None]))
              (translated ''Konnichiwa'') (Inr ()))
           (reaction_request ''flag-jp''))) =
        [TranslateText \<lparr>parent = ''projects/p/locations/global'', contents = [Some ''Hello''],
                        mimeType = ''text/plain'', targetLanguageCode = Str ''ja''\<rparr>]
   \<and> filter is_post
        (fst (events
           (sample_env True (replies_of (Some [sample_message (Some ''Hello'') None]))
              (translated ''Konnichiwa'') (Inr ()))
           (reaction_request ''flag-jp''))) =
        [PostMessage \<lparr>pa_token = ''xoxb'', pa_channel = ''C1'',
           pa_attachments = [translated_attachment ''flag-jp'' (Str ''ja'') ''Konnichiwa'' (Some ''Hello'')],
           pa_as_user = False, pa_username = ''Reacjilator Bot'', pa_thread_ts = Some ''100.1''\<rparr>]"
proof -
  let ?m = "sample_message (Some ''Hello'') None"
  let ?env = "sample_env True (replies_of (Some [?m])) (translated ''Konnichiwa'') (Inr ())"
  let ?resp = "\<lparr>resp_translations = [\<lparr>translatedText = ''Konnichiwa''\<rparr>]\<rparr>"
  have a1: "passes_validation ?env (reaction_request ''flag-jp'') (sample_event ''flag-jp'') (Str ''ja'')"
    by (rule passes_sample)
  have a2: "fetched ?env (sample_event ''flag-jp'') (Some [?m])"
    by (simp add: fetched_def getMessage_run sample_env_def replies_of_def)
  have a3: "translateText ?env (translate_request_of ?env ?m (Str ''ja'')) = Inr ?resp"
    by (simp add: sample_env_def translated_def)
  have a4: "resp_translations ?resp = [\<lparr>translatedText = ''Konnichiwa''\<rparr>]"
    by simp
  have a5: "isAlreadyPosted [?m] ''Konnichiwa'' = Inr None"
    by (simp add: isAlreadyPosted_def sample_message_def truthy_def)
  have a5': "isAlreadyPosted [?m] (translatedText \<lparr>translatedText = ''Konnichiwa''\<rparr>) = Inr None"
    using a5 by simp
  have v: "translate_request_of ?env ?m (Str ''ja'') =
      \<lparr>parent = ''projects/p/locations/global'', contents = [Some ''Hello''],
       mimeType = ''text/plain'', targetLanguageCode = Str ''ja''\<rparr>"
    "post_args_of ?env ?m (translatedText \<lparr>translatedText = ''Konnichiwa''\<rparr>) (Str ''ja'')
        (item_channel (ev_item (sample_event ''flag-jp''))) (ev_reaction (sample_event ''flag-jp'')) =
      \<lparr>pa_token = ''xoxb'', pa_channel = ''C1'',
       pa_attachments = [translated_attachment ''flag-jp'' (Str ''ja'') ''Konnichiwa'' (Some ''Hello'')],
       pa_as_user = False, pa_username = ''Reacjilator Bot'', pa_thread_ts = Some ''100.1''\<rparr>"
    by (simp_all add: translate_request_of_def post_args_of_def truthy_def sample_env_def
        sample_message_def sample_event_def)
  note r = one_translation_one_post[OF a1 a2 a3 a4 a5', unfolded v]
  show ?thesis using a1 a2 a3[unfolded v] a3 a5 r by simp
qed

section \<open>C8: thread anchor and attachment of a posted reply\<close>

text \<open>
  C8. Every reply posted for a thread with first message \<open>m\<close> is anchored at
  \<^verbatim>\<open>m.thread_ts\<close> when that field is present (truthy: a non-empty string) and at
  \<^verbatim>\<open>m.ts\<close> otherwise (the field is absent or the empty string); and when \<open>m\<close> has text,
  the one attachment posted has the provider's translation as its body, the original text
  as its footer, and a pretext that names the emoji and the language code.
\<close>

theorem reply_anchor_and_attachment:
  assumes "PostMessage args \<in> set (fst (postTranslatedMessage env (Some (m # ms)) lang ch emoji))"
  shows "(\<forall>anchor. msg_thread_ts m = Some anchor \<and> anchor \<noteq> [] \<longrightarrow> pa_thread_ts args = Some anchor)
    \<and> (\<not> truthy (msg_thread_ts m) \<longrightarrow> pa_thread_ts args = msg_ts m)
    \<and> (\<forall>original. msg_text m = Some original \<and> original \<noteq> [] \<longrightarrow>
          (\<exists>resp t rest.
              translateText env (translate_request_of env m lang) = Inr resp
              \<and> resp_translations resp = t # rest
              \<and> pa_attachments args =
                  [\<lparr>att_pretext =
                      Some (''_The message is translated in_ :'' @ emoji @ '': _('' @ to_text lang
                            @ '')_''),
                    att_text = Some (translatedText t),
                    att_footer = Some original,
                    att_mrkdwn_in = [''text'', ''pretext'']\<rparr>]))"
proof -
  from posted_args[OF assms] obtain resp t rest where
    r: "translateText env (translate_request_of env m lang) = Inr resp"
       "resp_translations resp = t # rest"
       "args = post_args_of env m (translatedText t) lang ch emoji"
    by blast
  have "\<forall>anchor. msg_thread_ts m = Some anchor \<and> anchor \<noteq> [] \<longrightarrow> pa_thread_ts args = Some anchor"
    using r(3) by (simp add: post_args_of_def truthy_def)
  moreover have "\<not> truthy (msg_thread_ts m) \<longrightarrow> pa_thread_ts args = msg_ts m"
    using r(3) by (simp add: post_args_of_def)
  moreover have "\<forall>original. msg_text m = Some original \<and> original \<noteq> [] \<longrightarrow>
          (\<exists>resp t rest.
              translateText env (translate_request_of env m lang) = Inr resp
              \<and> resp_translations resp = t # rest
              \<and> pa_attachments args =
                  [\<lparr>att_pretext =
                      Some (''_The message is translated in_ :'' @ emoji @ '': _('' @ to_text lang
                            @ '')_''),
                    att_text = Some (translatedText t),
                    att_footer = Some original,
                    att_mrkdwn_in = [''text'', ''pretext'']\<rparr>])"
    using r by (auto simp: post_args_of_def truthy_def translated_attachment_def)
  ultimately show ?thesis by blast
qed

theorem reply_anchor_and_attachment_witness:
  "PostMessage \<lparr>pa_token = ''xoxb'', pa_channel = ''C1'',
       pa_attachments =
         [\<lparr>att_pretext = Some ''_The message is translated in_ :flag-jp: _(ja)_'',
           att_text = Some ''Konnichiwa'', att_footer = Some ''Hello'',
           att_mrkdwn_in = [''text'', ''pretext'']\<rparr>],
       pa_as_user = False, pa_username = ''Reacjilator Bot'', pa_thread_ts = Some ''100.1''\<rparr>
     \<in> set (fst (postTranslatedMessage
                (sample_env True (replies_of None) (translated ''Konnichiwa'') (Inr ()))
                (Some [sample_message (Some ''Hello'') None]) (Str ''ja'') ''C1'' ''flag-jp''))
   \<and> \<not> truthy (msg_thread_ts (sample_message (Some ''Hello'') None))
   \<and> msg_ts (sample_message (Some ''Hello'') None) = Some ''100.1''
   \<and> msg_text (sample_message (Some ''Hello'') None) = Some ''Hello''
   \<and> PostMessage \<lparr>pa_token = ''xoxb'', pa_channel = ''C1'',
       pa_attachments =
         [\<lparr>att_pretext = Some ''_The message is translated in_ :flag-jp: _(ja)_'',
           att_text = Some ''Konnichiwa'', att_footer = Some ''Hello'',
           att_mrkdwn_in = [''text'', ''pretext'']\<rparr>],
       pa_as_user = False, pa_username = ''Reacjilator Bot'', pa_thread_ts = Some ''99.5''\<rparr>
     \<in> set (fst (postTranslatedMessage
                (sample_env True (replies_of None) (translated ''Konnichiwa'') (Inr ()))
                (Some [sample_message (Some ''Hello'') (Some ''99.5'')]) (Str ''ja'') ''C1'' ''flag-jp''))
   \<and> msg_thread_ts (sample_message (Some ''Hello'') (Some ''99.5'')) = Some ''99.5''
   \<and> PostMessage \<lparr>pa_token = ''xoxb'', pa_channel = ''C1'',
       pa_attachments =
         [\<lparr>att_pretext = Some ''_The message is translated in_ :flag-jp: _(ja)_'',
           att_text = Some ''Konnichiwa'', att_footer = Some ''Hello'',
           att_mrkdwn_in = [''text'', ''pretext'']\<rparr>],
       pa_as_user = False, pa_username = ''Reacjilator Bot'', pa_thread_ts = Some ''100.1''\<rparr>
     \<in> set (fst (postTranslatedMessage
                (sample_env True (replies_of None) (translated ''Konnichiwa'') (Inr ()))
                (Some [sample_message (Some ''Hello'') (Some [])]) (Str ''ja'') ''C1'' ''flag-jp''))
   \<and> msg_thread_ts (sample_message (Some ''Hello'') (Some [])) = Some []
   \<and> \<not> truthy (msg_thread_ts (sample_message (Some ''Hello'') (Some [])))
   \<and> msg_ts (sample_message (Some ''Hello'') (Some [])) = Some ''100.1''"
proof -
  let ?env = "sample_env True (replies_of None) (translated ''Konnichiwa'') (Inr ())"
  let ?att = "[\<lparr>att_pretext = Some ''_The message is translated in_ :flag-jp: _(ja)_'',
           att_text = Some ''Konnichiwa'', att_footer = Some ''Hello'',
           att_mrkdwn_in = [''text'', ''pretext'']\<rparr>]"
  let ?a1 = "\<lparr>pa_token = ''xoxb'', pa_channel = ''C1'', pa_attachments = ?att,
       pa_as_user = False, pa_username = ''Reacjilator Bot'', pa_thread_ts = Some ''100.1''\<rparr>"
  let ?a2 = "\<lparr>pa_token = ''xoxb'', pa_channel = ''C1'', pa_attachments = ?att,
       pa_as_user = False, pa_username = ''Reacjilator Bot'', pa_thread_ts = Some ''99.5''\<rparr>"
  have h1: "PostMessage ?a1 \<in> set (fst (postTranslatedMessage ?env
                (Some [sample_message (Some ''Hello'') None]) (Str ''ja'') ''C1'' ''flag-jp''))"
    by (simp add: postTranslatedMessage_run isAlreadyPosted_def post_args_of_def truthy_def
        translated_attachment_def to_text_def sample_defs)
  have h2: "PostMessage ?a2 \<in> set (fst (postTranslatedMessage ?env
                (Some [sample_message (Some ''Hello'') (Some ''99.5'')]) (Str ''ja'') ''C1'' ''flag-jp''))"
    by (simp add: postTranslatedMessage_run isAlreadyPosted_def post_args_of_def truthy_def
        translated_attachment_def to_text_def sample_defs)
  have h3: "PostMessage ?a1 \<in> set (fst (postTranslatedMessage ?env
                (Some [sample_message (Some ''Hello'') (Some [])]) (Str ''ja'') ''C1'' ''flag-jp''))"
    by (simp add: postTranslatedMessage_run isAlreadyPosted_def post_args_of_def truthy_def
        translated_attachment_def to_text_def sample_defs)
  have m: "\<not> truthy (msg_thread_ts (sample_message (Some ''Hello'') None))"
    "msg_ts (sample_message (Some ''Hello'') None) = Some ''100.1''"
    "msg_text (sample_message (Some ''Hello'') None) = Some ''Hello''"
    "msg_thread_ts (sample_message (Some ''Hello'') (Some ''99.5'')) = Some ''99.5''"
    "msg_thread_ts (sample_message (Some ''Hello'') (Some [])) = Some []"
    "\<not> truthy (msg_thread_ts (sample_message (Some ''Hello'') (Some [])))"
    "msg_ts (sample_message (Some ''Hello'') (Some [])) = Some ''100.1''"
    by (simp_all add: sample_message_def truthy_def)
  note r1 = reply_anchor_and_attachment[OF h1]
  note r2 = reply_anchor_and_attachment[OF h2]
  note r3 = reply_anchor_and_attachment[OF h3]
  from r1 m have "pa_thread_ts ?a1 = msg_ts (sample_message (Some ''Hello'') None)" by blast
  moreover from r2 m have "pa_thread_ts ?a2 = Some ''99.5''" by simp
  moreover from r3 m have "pa_thread_ts ?a1 = msg_ts (sample_message (Some ''Hello'') (Some []))"
    by blast
  ultimately show ?thesis using h1 h2 h3 m by simp
qed

section \<open>C9: inbound routing\<close>

text \<open>
  C9. A request of type \<^verbatim>\<open>url_verification\<close> is answered with a body that echoes the
  supplied challenge; an \<^verbatim>\<open>event_callback\<close> request that fails signature verification
  is answered with status 404 and body \<^verbatim>\<open>"bad request"\<close>; so is a request of any other
  type. None of the three runs does more than write the two log lines of the handler.
\<close>

theorem handler_routing:
  "(body_type (req_body r1) = Some ''url_verification'' \<longrightarrow>
      handler env r1 =
        ([Log LogProcessed, Log (LogRequest r1)],
         Inr \<lparr>res_status = None, res_body = ChallengeBody (body_challenge (req_body r1))\<rparr>))
   \<and> (body_type (req_body r2) = Some ''event_callback'' \<and> \<not> isVerified env r2 \<longrightarrow>
      handler env r2 =
        ([Log LogProcessed, Log (LogRequest r2)],
         Inr \<lparr>res_status = Some 404, res_body = StringBody ''bad request''\<rparr>))
   \<and> (body_type (req_body r3) \<noteq> Some ''url_verification'' \<and>
       body_type (req_body r3) \<noteq> Some ''event_callback'' \<longrightarrow>
      handler env r3 =
        ([Log LogProcessed, Log (LogRequest r3)],
         Inr \<lparr>res_status = Some 404, res_body = StringBody ''bad request''\<rparr>))"
  by (simp add: handler_run bad_request_def)

theorem handler_routing_witness:
  "(body_type (req_body (typed_request ''url_verification'' (Some ''3eZbrw1a''))) = Some ''url_verification''
    \<and> handler (sample_env False (replies_of None) (translated ''x'') (Inr ()))
         (typed_request ''url_verification'' (Some ''3eZbrw1a'')) =
        ([Log LogProcessed, Log (LogRequest (typed_request ''url_verification'' (Some ''3eZbrw1a'')))],
         Inr \<lparr>res_status = None, res_body = ChallengeBody (Some ''3eZbrw1a'')\<rparr>))
   \<and> (body_type (req_body (reaction_request ''jp'')) = Some ''event_callback''
    \<and> \<not> isVerified (sample_env False (replies_of None) (translated ''x'') (Inr ())) (reaction_request ''jp'')
    \<and> handler (sample_env False (replies_of None) (translated ''x'') (Inr ())) (reaction_request ''jp'') =
        ([Log LogProcessed, Log (LogRequest (reaction_request ''jp''))],
         Inr \<lparr>res_status = Some 404, res_body = StringBody ''bad request''\<rparr>))
   \<and> (body_type (req_body (typed_request ''app_rate_limited'' None)) \<noteq> Some ''url_verification''
    \<and> body_type (req_body (typed_request ''app_rate_limited'' None)) \<noteq> Some ''event_callback''
    \<and> handler (sample_env False (replies_of None) (translated ''x'') (Inr ()))
         (typed_request ''app_rate_limited'' None) =
        ([Log LogProcessed, Log (LogRequest (typed_request ''app_rate_limited'' None))],
         Inr \<lparr>res_status = Some 404, res_body = StringBody ''bad request''\<rparr>))"
  using handler_routing[of "typed_request ''url_verification'' (Some ''3eZbrw1a'')"
      "sample_env False (replies_of None) (translated ''x'') (Inr ())"
      "reaction_request ''jp''" "typed_request ''app_rate_limited'' None"]
  by (simp add: sample_defs)

section \<open>C10: a subtype-marked message without attachments\<close>

text \<open>
  The callback of \<^verbatim>\<open>forEach\<close> tests \<^verbatim>\<open>!alreadyPosted\<close> first: once a message has
  matched, no later message is dereferenced. A thread in which the broadcast reply comes
  after the earlier translation post raises nothing, and the check returns \<^verbatim>\<open>true\<close>.
\<close>

theorem matched_thread_skips_dereference:
  "truthy (msg_subtype broadcast_reply)
   \<and> msg_attachments broadcast_reply = None
   \<and> isAlreadyPosted [sample_message (Some ''Hello'') None, bot_reply ''Konnichiwa'', broadcast_reply]
        ''Konnichiwa'' = Inr (Some True)
   \<and> filter is_error_log
        (fst (handler
           (sample_env True
              (replies_of (Some [sample_message (Some ''Hello'') None, bot_reply ''Konnichiwa'',
                                 broadcast_reply]))
              (translated ''Konnichiwa'') (Inr ()))
           (reaction_request ''jp''))) = []"
  by (simp add: handler_run events_run[where ev = "sample_event ''jp''"] getMessage_run
      postTranslatedMessage_run isAlreadyPosted_def translated_attachment_def
      replies_args_of_def resolve_sample_jp truthy_def sample_defs)

text \<open>
  C10, as the code has it. Let a thread message have a truthy \<^verbatim>\<open>subtype\<close> and no
  \<^verbatim>\<open>attachments\<close>, and let every subtype-marked message before it have a first attachment
  whose text differs from the translation (so that the scan reaches it with
  \<^verbatim>\<open>alreadyPosted\<close> still false). Then the duplicate check throws a TypeError, the
  \<^verbatim>\<open>catch\<close> clause of \<^verbatim>\<open>postTranslatedMessage\<close> logs it, and for an authenticated
  request that passed validation the event ends with the translation requested and
  logged, no post, and the handler returning its usual response. And once a message has
  matched, no later message is dereferenced: when the subtype-marked messages before a
  prior translation post have first attachments, the check returns \<^verbatim>\<open>true\<close> whatever
  follows that post, messages without attachments included.
\<close>

theorem missing_attachments_caught:
  "(body_type (req_body req) = Some ''event_callback'' \<and> isVerified env req
    \<and> passes_validation env req ev lang
    \<and> fetched env ev (Some (pre @ bad # post))
    \<and> translateText env (translate_request_of env (hd (pre @ bad # post)) lang) = Inr resp
    \<and> resp_translations resp = x # xs
    \<and> truthy (msg_subtype bad) \<and> msg_attachments bad = None
    \<and> (\<forall>p \<in> set pre. truthy (msg_subtype p) \<longrightarrow>
           (\<exists>a as. msg_attachments p = Some (a # as) \<and> att_text a \<noteq> Some (translatedText x)))
    \<longrightarrow>
      isAlreadyPosted (pre @ bad # post) (translatedText x) = Inl TypeError
      \<and> postTranslatedMessage env (Some (pre @ bad # post)) lang (item_channel (ev_item ev))
            (ev_reaction ev) =
          ([TranslateText (translate_request_of env (hd (pre @ bad # post)) lang),
            Log (LogTransResponse resp), Log (LogError TypeError)], Inr ())
      \<and> snd (handler env req) = Inr \<lparr>res_status = None, res_body = UndefinedBody\<rparr>
      \<and> filter is_post (fst (handler env req)) = []
      \<and> Log (LogError TypeError) \<in> set (fst (handler env req)))
   \<and> (posted_translation t m
       \<and> (\<forall>p \<in> set pre'. truthy (msg_subtype p) \<longrightarrow> (\<exists>a as. msg_attachments p = Some (a # as)))
    \<longrightarrow> isAlreadyPosted (pre' @ m # post') t = Inr (Some True))"
proof (intro conjI impI)
  assume h: "body_type (req_body req) = Some ''event_callback'' \<and> isVerified env req
    \<and> passes_validation env req ev lang
    \<and> fetched env ev (Some (pre @ bad # post))
    \<and> translateText env (translate_request_of env (hd (pre @ bad # post)) lang) = Inr resp
    \<and> resp_translations resp = x # xs
    \<and> truthy (msg_subtype bad) \<and> msg_attachments bad = None
    \<and> (\<forall>p \<in> set pre. truthy (msg_subtype p) \<longrightarrow>
           (\<exists>a as. msg_attachments p = Some (a # as) \<and> att_text a \<noteq> Some (translatedText x)))"
  then have r: "isAlreadyPosted (pre @ bad # post) (translatedText x) = Inl TypeError
    \<and> postTranslatedMessage env (Some (pre @ bad # post)) lang (item_channel (ev_item ev)) (ev_reaction ev) =
        ([TranslateText (translate_request_of env (hd (pre @ bad # post)) lang),
          Log (LogTransResponse resp), Log (LogError TypeError)], Inr ())
    \<and> snd (handler env req) = Inr \<lparr>res_status = None, res_body = UndefinedBody\<rparr>
    \<and> filter is_post (fst (handler env req)) = []
    \<and> Log (LogError TypeError) \<in> set (fst (handler env req))"
    by (intro missing_attachments_run) blast+
  from r show "isAlreadyPosted (pre @ bad # post) (translatedText x) = Inl TypeError" by blast
  from r show "postTranslatedMessage env (Some (pre @ bad # post)) lang (item_channel (ev_item ev))
            (ev_reaction ev) =
          ([TranslateText (translate_request_of env (hd (pre @ bad # post)) lang),
            Log (LogTransResponse resp), Log (LogError TypeError)], Inr ())" by blast
  from r show "snd (handler env req) = Inr \<lparr>res_status = None, res_body = UndefinedBody\<rparr>" by blast
  from r show "filter is_post (fst (handler env req)) = []" by blast
  from r show "Log (LogError TypeError) \<in> set (fst (handler env req))" by blast
next
  assume "posted_translation t m
       \<and> (\<forall>p \<in> set pre'. truthy (msg_subtype p) \<longrightarrow> (\<exists>a as. msg_attachments p = Some (a # as)))"
  then show "isAlreadyPosted (pre' @ m # post') t = Inr (Some True)"
    using first_match_returns_true[of t m pre' post'] by blast
qed

theorem missing_attachments_caught_witness:
  "body_type (req_body (reaction_request ''jp'')) = Some ''event_callback''
   \<and> isVerified
        (sample_env True
           (replies_of (Some ([sample_message (Some ''Hello'') None] @ broadcast_reply #
                              [bot_reply ''Konnichiwa''])))
           (translated ''Konnichiwa'') (Inr ()))
        (reaction_request ''jp'')
   \<and> passes_validation
        (sample_env True
           (replies_of (Some ([sample_message (Some ''Hello'') None] @ broadcast_reply #
                              [bot_reply ''Konnichiwa''])))
           (translated ''Konnichiwa'') (Inr ()))
        (reaction_request ''jp'') (sample_event ''jp'') (Str ''ja'')
   \<and> fetched
        (sample_env True
           (replies_of (Some ([sample_message (Some ''Hello'') None] @ broadcast_reply #
                              [bot_reply ''Konnichiwa''])))
           (translated ''Konnichiwa'') (Inr ()))
        (sample_event ''jp'')
        (Some ([sample_message (Some ''Hello'') None] @ broadcast_reply # [bot_reply ''Konnichiwa'']))
   \<and> truthy (msg_subtype broadcast_reply)
   \<and> msg_attachments broadcast_reply = None
   \<and> isAlreadyPosted
        ([sample_message (Some ''Hello'') None] @ broadcast_reply # [bot_reply ''Konnichiwa''])
        ''Konnichiwa'' = Inl TypeError
   \<and> snd (handler
        (sample_env True
           (replies_of (Some ([sample_message (Some ''Hello'') None] @ broadcast_reply #
                              [bot_reply ''Konnichiwa''])))
           (translated ''Konnichiwa'') (Inr ()))
        (reaction_request ''jp'')) = Inr \<lparr>res_status = None, res_body = UndefinedBody\<rparr>
   \<and> filter is_post (fst (handler
        (sample_env True
           (replies_of (Some ([sample_message (Some ''Hello'') None] @ broadcast_reply #
                              [bot_reply ''Konnichiwa''])))
           (translated ''Konnichiwa'') (Inr ()))
        (reaction_request ''jp''))) = []
   \<and> Log (LogError TypeError) \<in> set (fst (handler
        (sample_env True
           (replies_of (Some ([sample_message (Some ''Hello'') None] @ broadcast_reply #
                              [bot_reply ''Konnichiwa''])))
           (translated ''Konnichiwa'') (Inr ()))
        (reaction_request ''jp'')))
   \<and> posted_translation ''Konnichiwa'' (bot_reply ''Konnichiwa'')
   \<and> isAlreadyPosted
        ([sample_message (Some ''Hello'') None] @ bot_reply ''Konnichiwa'' # [broadcast_reply])
        ''Konnichiwa'' = Inr (Some True)"
proof -
  let ?pre = "[sample_message (Some ''Hello'') None]"
  let ?post = "[bot_reply ''Konnichiwa'']"
  let ?env = "sample_env True (replies_of (Some (?pre @ broadcast_reply # ?post)))
                (translated ''Konnichiwa'') (Inr ())"
  let ?x = "\<lparr>translatedText = ''Konnichiwa''\<rparr>"
  have a1: "body_type (req_body (reaction_request ''jp'')) = Some ''event_callback''"
    by (simp add: reaction_request_def)
  have a2: "isVerified ?env (reaction_request ''jp'')"
    by (simp add: sample_env_def)
  have a3: "passes_validation ?env (reaction_request ''jp'') (sample_event ''jp'') (Str ''ja'')"
    by (rule passes_sample)
  have a4: "fetched ?env (sample_event ''jp'') (Some (?pre @ broadcast_reply # ?post))"
    by (simp add: fetched_def getMessage_run sample_env_def replies_of_def)
  have a5: "translateText ?env (translate_request_of ?env (hd (?pre @ broadcast_reply # ?post)) (Str ''ja''))
              = Inr \<lparr>resp_translations = [?x]\<rparr>"
    by (simp add: sample_env_def translated_def)
  have a6: "resp_translations \<lparr>resp_translations = [?x]\<rparr> = ?x # []"
    by simp
  have a7: "truthy (msg_subtype broadcast_reply)" and a8: "msg_attachments broadcast_reply = None"
    by (simp_all add: broadcast_reply_def truthy_def)
  have a9: "\<forall>p \<in> set ?pre. truthy (msg_subtype p) \<longrightarrow>
      (\<exists>a as. msg_attachments p = Some (a # as) \<and> att_text a \<noteq> Some (translatedText ?x))"
    by (simp add: sample_message_def truthy_def)
  have b1: "posted_translation ''Konnichiwa'' (bot_reply ''Konnichiwa'')"
    by (simp add: posted_translation_def bot_reply_def translated_attachment_def truthy_def)
  have b2: "\<forall>p \<in> set ?pre. truthy (msg_subtype p) \<longrightarrow> (\<exists>a as. msg_attachments p = Some (a # as))"
    by (simp add: sample_message_def truthy_def)
  note r = missing_attachments_caught[of "reaction_request ''jp''" ?env "sample_event ''jp''"
      "Str ''ja''" ?pre broadcast_reply ?post "\<lparr>resp_translations = [?x]\<rparr>" ?x "[]"
      "''Konnichiwa''" "bot_reply ''Konnichiwa''" ?pre "[broadcast_reply]"]
  from r a1 a2 a3 a4 a5 a6 a7 a8 a9 have c1:
    "isAlreadyPosted (?pre @ broadcast_reply # ?post) (translatedText ?x) = Inl TypeError"
    "snd (handler ?env (reaction_request ''jp'')) = Inr \<lparr>res_status = None, res_body = UndefinedBody\<rparr>"
    "filter is_post (fst (handler ?env (reaction_request ''jp''))) = []"
    "Log (LogError TypeError) \<in> set (fst (handler ?env (reaction_request ''jp'')))"
    by blast+
  from r b1 b2 have c2:
    "isAlreadyPosted (?pre @ bot_reply ''Konnichiwa'' # [broadcast_reply]) ''Konnichiwa'' = Inr (Some True)"
    by blast
  show ?thesis using a1 a2 a3 a4 a7 a8 b1 c1 c2 by simp
qed

end
